theory Spec2Isabelle
  imports Complex_Main
begin

section \<open>JavaScript values, errors and effects\<close>

text \<open>
  The repository holds four variants of one Express service: \<^verbatim>\<open>backend/server.js\<close>
  (hosted parser, then completion), \<^verbatim>\<open>part_000\<close> (images and PDFs, with an OCR
  fallback), \<^verbatim>\<open>part_001\<close> (images only) and \<^verbatim>\<open>part_002\<close> (PDFs only).
  Strings are lists of characters. An error object carries what the handlers read from
  it: \<^verbatim>\<open>err.message\<close>, \<^verbatim>\<open>err instanceof multer.MulterError\<close> and \<^verbatim>\<open>err.path\<close>.
\<close>

record jserror =
  message :: string
  isMulterError :: bool
  epath :: "string option"

definition newError :: "string \<Rightarrow> jserror" where
  \<comment> \<open>\<^verbatim>\<open>new Error(m)\<close>\<close>
  "newError m = \<lparr>message = m, isMulterError = False, epath = None\<rparr>"

definition truthy :: "string option \<Rightarrow> bool" where
  \<comment> \<open>truthiness of a value that is a string, or \<^verbatim>\<open>undefined\<close>/\<^verbatim>\<open>null\<close> (\<open>None\<close>)\<close>
  "truthy v = (case v of None \<Rightarrow> False | Some s \<Rightarrow> s \<noteq> [])"

definition digit :: "nat \<Rightarrow> char" where
  "digit d = ''0123456789'' ! d"

function decimal :: "nat \<Rightarrow> string" where
  \<comment> \<open>a non-negative integer inside a template literal\<close>
  "decimal n = (if n < 10 then [digit n] else decimal (n div 10) @ [digit (n mod 10)])"
  by pat_completeness auto
termination
  by (relation "measure id") auto

declare decimal.simps [simp del]

definition js_space :: "char \<Rightarrow> bool" where
  \<comment> \<open>the white space and line terminators that \<^verbatim>\<open>String.prototype.trim\<close> removes,
      among the characters representable here\<close>
  "js_space c = (of_char c \<in> {9, 10, 11, 12, 13, 32, 160 :: nat})"

definition trim :: "string \<Rightarrow> string" where
  "trim s = rev (dropWhile js_space (rev (dropWhile js_space s)))"

definition startsWith :: "string \<Rightarrow> string \<Rightarrow> bool" where
  "startsWith s p = (take (length p) s = p)"

subsection \<open>The completion request\<close>

datatype content_part = TextPart string | ImageUrl string

datatype content = Plain string | Parts "content_part list"

record chat_message =
  role :: string
  content :: content

record completion_request =
  model :: string
  messages :: "chat_message list"
  temperature :: rat
  max_tokens :: "nat option"
  max_completion_tokens :: "nat option"
  top_p :: "nat option"
  stream :: "bool option"
  stop_null :: bool

subsection \<open>The world: files and the trace of effects\<close>

datatype event =
    Sleep nat
  | ReadFile string
  | Unlink string bool
  | PdfToPng string string
  | ParserUpload string string
  | ParserPoll "string option"
  | Completion completion_request

record world =
  files :: "string \<rightharpoonup> string"
  trace :: "event list"

type_synonym 'a io = "world \<Rightarrow> (jserror + 'a) \<times> world"

definition emit :: "event list \<Rightarrow> world \<Rightarrow> world" where
  "emit evs w = w\<lparr>trace := trace w @ evs\<rparr>"

subsection \<open>Replies of the hosted services\<close>

text \<open>
  A reply is read through \<^verbatim>\<open>response.status\<close>, \<^verbatim>\<open>response.text()\<close> and
  \<^verbatim>\<open>response.json()\<close> (or \<^verbatim>\<open>JSON.parse\<close> of the text). Decoding either throws
  (\<open>Inl\<close>) or gives a value, of which the handlers read the fields below; by the
  contracts of the two services these fields are text when present, \<open>None\<close> stands
  for an absent field. \<open>stringified\<close> is \<^verbatim>\<open>JSON.stringify\<close> of the decoded value.
\<close>

record json_view =
  id_field :: "string option"
  markdown :: "string option"
  detail :: "string option"
  message_content :: "string option"
  choice_text :: "string option"
  stringified :: string

record reply =
  r_status :: nat
  r_text :: string
  r_json :: "jserror + json_view"

definition ok :: "reply \<Rightarrow> bool" where
  \<comment> \<open>\<^verbatim>\<open>response.ok\<close>: a status in the range 200-299\<close>
  "ok r = (200 \<le> r_status r \<and> r_status r \<le> 299)"

text \<open>
  What a request finds outside the program is given by an environment: the two clock
  readings \<^verbatim>\<open>Date.now()\<close> (for the stored file name and for the temporary image name),
  \<^verbatim>\<open>__dirname\<close> and \<^verbatim>\<open>os.tmpdir()\<close>, the environment variables, the outcome of each
  \<^verbatim>\<open>fetch\<close> (\<open>Inl\<close> when it rejects; the reply to the \<open>k\<close>-th poll; the reply of the
  completion service to a given request body), and the libraries: the text that
  \<^verbatim>\<open>pdf-parse\<close> extracts from a buffer, whether constructing the converter throws, what
  the converter writes and whether it then throws, and the base64 encoding.
\<close>

record env =
  now :: nat
  now_png :: nat
  dirname :: string
  tmpdir :: string
  LLAMA_CLOUD_API_KEY :: "string option"
  GROQ_API_KEY :: "string option"
  NODE_ENV :: "string option"
  upload_reply :: "jserror + reply"
  poll_reply :: "nat \<Rightarrow> jserror + reply"
  groq_reply :: "completion_request \<Rightarrow> jserror + reply"
  pdf_text :: "string \<Rightarrow> jserror + string"
  poppler_new :: "jserror option"
  pdfToPng :: "string \<Rightarrow> string option \<times> jserror option"
  base64 :: "string \<Rightarrow> string"

section \<open>server.js: polling the hosted parser\<close>

definition maxAttempts :: nat where
  "maxAttempts = 60"

text \<open>
  One round of the \<^verbatim>\<open>while\<close> loop of \<^verbatim>\<open>pollForResult\<close>: wait 5000 ms, fetch the
  status endpoint, then return, throw or count the attempt and go on. The reply to the
  poll made when \<^verbatim>\<open>attempts\<close> is \<open>k\<close> is \<open>poll_reply e k\<close>.
\<close>

function pollLoop :: "env \<Rightarrow> string option \<Rightarrow> nat \<Rightarrow> (string option) io" where
  "pollLoop e jobId attempts w =
     (if attempts < maxAttempts then
        (let w1 = emit [Sleep 5000, ParserPoll jobId] w in
         case poll_reply e attempts of
           Inl err \<Rightarrow> (Inl err, w1)
         | Inr response \<Rightarrow>
             if ok response then
               (case r_json response of
                  Inl err \<Rightarrow> (Inl err, w1)
                | Inr result \<Rightarrow> (Inr (markdown result), w1))
             else if r_status response = 400 then
               (case r_json response of
                  Inl err \<Rightarrow> (Inl err, w1)
                | Inr error \<Rightarrow>
                    if detail error = Some ''Job not completed yet''
                    then pollLoop e jobId (attempts + 1) w1
                    else (Inl (newError (''Error: '' @ stringified error)), w1))
             else (Inl (newError (''Error checking job status ('' @ decimal (r_status response)
                                   @ ''): '' @ r_text response)), w1))
      else (Inl (newError ''Parsing timeout - job took too long to complete''), w))"
  by pat_completeness auto
termination
  by (relation "measure (\<lambda>(e, jobId, attempts, w). maxAttempts - attempts)") auto

declare pollLoop.simps [simp del]

definition pollForResult :: "env \<Rightarrow> string option \<Rightarrow> (string option) io" where
  "pollForResult e jobId = pollLoop e jobId 0"

definition not_completed_yet :: "jserror + reply \<Rightarrow> bool" where
  \<comment> \<open>an HTTP 400 whose JSON body has \<^verbatim>\<open>detail === 'Job not completed yet'\<close>\<close>
  "not_completed_yet x =
     (case x of
        Inl err \<Rightarrow> False
      | Inr r \<Rightarrow> r_status r = 400 \<and>
          (case r_json r of Inl err \<Rightarrow> False
           | Inr v \<Rightarrow> detail v = Some ''Job not completed yet''))"

definition polls :: "string option \<Rightarrow> nat \<Rightarrow> event list" where
  \<comment> \<open>\<open>n\<close> polls, each after a wait of 5000 ms\<close>
  "polls jobId n = concat (replicate n [Sleep 5000, ParserPoll jobId])"


section \<open>Effects shared by the four variants\<close>

definition ret :: "'a \<Rightarrow> 'a io" where
  "ret x w = (Inr x, w)"

definition throw :: "jserror \<Rightarrow> 'a io" where
  "throw err w = (Inl err, w)"

definition then_io :: "'a io \<Rightarrow> ('a \<Rightarrow> 'b io) \<Rightarrow> 'b io" where
  \<comment> \<open>\<^verbatim>\<open>const x = await m; ...\<close>: a rejection of \<open>m\<close> leaves the block\<close>
  "then_io m f w = (case m w of (Inl err, w') \<Rightarrow> (Inl err, w') | (Inr x, w') \<Rightarrow> f x w')"

definition enoent :: "string \<Rightarrow> string \<Rightarrow> jserror" where
  "enoent syscall p =
     \<lparr>message = ''ENOENT: no such file or directory, '' @ syscall @ '' '' @ [CHR 0x27] @ p
                  @ [CHR 0x27],
      isMulterError = False, epath = Some p\<rparr>"

definition readFile :: "string \<Rightarrow> string io" where
  "readFile p w =
     (case files w p of
        None \<Rightarrow> (Inl (enoent ''open'' p), emit [ReadFile p] w)
      | Some buffer \<Rightarrow> (Inr buffer, emit [ReadFile p] w))"

definition unlink :: "string \<Rightarrow> unit io" where
  \<comment> \<open>\<^verbatim>\<open>fs.unlink\<close>: removes an existing file, rejects with ENOENT otherwise\<close>
  "unlink p w =
     (case files w p of
        None \<Rightarrow> (Inl (enoent ''unlink'' p), emit [Unlink p False] w)
      | Some buffer \<Rightarrow> (Inr (), emit [Unlink p True] (w\<lparr>files := (files w)(p := None)\<rparr>)))"

definition try_unlink :: "string \<Rightarrow> world \<Rightarrow> world" where
  \<comment> \<open>\<^verbatim>\<open>try { await fs.unlink(p) } catch (e) { ... }\<close>: the catch block only logs\<close>
  "try_unlink p w = snd (unlink p w)"

definition if_path :: "string option \<Rightarrow> (string \<Rightarrow> world \<Rightarrow> world) \<Rightarrow> world \<Rightarrow> world" where
  \<comment> \<open>\<^verbatim>\<open>if (filePath) { ... }\<close>\<close>
  "if_path filePath f w =
     (case filePath of None \<Rightarrow> w | Some p \<Rightarrow> if p = [] then w else f p w)"

definition existsSync :: "string \<Rightarrow> world \<Rightarrow> bool" where
  "existsSync p w = (files w p \<noteq> None)"

definition fetch_completion :: "env \<Rightarrow> completion_request \<Rightarrow> reply io" where
  \<comment> \<open>\<^verbatim>\<open>await fetch(".../chat/completions", {method: "POST", body: JSON.stringify(b)})\<close>\<close>
  "fetch_completion e b w = (groq_reply e b, emit [Completion b] w)"

definition nl :: char where
  "nl = CHR 0x0A"

definition quote :: char where
  "quote = CHR 0x27"

subsection \<open>HTTP responses of the service\<close>

datatype jv = JBool bool | JStr string

record http_response =
  status :: nat
  body :: "(string \<times> jv) list"

definition success_response :: "string \<Rightarrow> http_response" where
  \<comment> \<open>\<^verbatim>\<open>res.json({ success: true, output: outputText })\<close>\<close>
  "success_response outputText =
     \<lparr>status = 200, body = [(''success'', JBool True), (''output'', JStr outputText)]\<rparr>"

subsection \<open>The upload middleware\<close>

text \<open>
  \<^verbatim>\<open>upload.single("file")\<close> is multer's: it runs the variant's \<^verbatim>\<open>fileFilter\<close> on the
  file part, counts the bytes against \<^verbatim>\<open>limits.fileSize\<close>, stores an accepted file under
  the name given by \<^verbatim>\<open>filename\<close> in \<^verbatim>\<open>uploadsDir\<close>, and sets \<^verbatim>\<open>req.file\<close> and
  \<^verbatim>\<open>req.body\<close>. An error given to the filter's callback is passed on as it is; a file
  over the limit gives a \<^verbatim>\<open>MulterError\<close> with the message "File too large". Both go to the
  variant's \<^verbatim>\<open>errorHandler\<close>, and the route handler does not run. \<open>fsize\<close> is the
  number of bytes of the file part, kept beside its content.
\<close>

record upload_file =
  originalname :: string
  mimetype :: string
  fsize :: nat
  bytes :: string

record stored_file = upload_file +
  path :: string

text \<open>
  An incoming multipart request is read through its \<^verbatim>\<open>file\<close> part and its \<^verbatim>\<open>prompt\<close>
  field, each of which may be missing; the handlers see \<^verbatim>\<open>req.file\<close> and
  \<^verbatim>\<open>req.body.prompt\<close> (\<^verbatim>\<open>req.body\<close> itself is always an object once the body parsers
  have run).
\<close>

record incoming =
  in_file :: "upload_file option"
  in_prompt :: "string option"

record request =
  req_file :: "stored_file option"
  req_prompt :: "string option"

definition safe_char :: "char \<Rightarrow> bool" where
  \<comment> \<open>the class \<^verbatim>\<open>[a-zA-Z0-9.-]\<close>\<close>
  "safe_char c =
     (let n = (of_char c :: nat) in
      (97 \<le> n \<and> n \<le> 122) \<or> (65 \<le> n \<and> n \<le> 90) \<or> (48 \<le> n \<and> n \<le> 57)
      \<or> c = CHR ''.'' \<or> c = CHR ''-'')"

definition sanitize :: "string \<Rightarrow> string" where
  \<comment> \<open>\<^verbatim>\<open>file.originalname.replace(/[^a-zA-Z0-9.-]/g, "_")\<close>\<close>
  "sanitize name = map (\<lambda>c. if safe_char c then c else CHR ''_'') name"

definition filename :: "env \<Rightarrow> upload_file \<Rightarrow> string" where
  \<comment> \<open>\<^verbatim>\<open>`${Date.now()}-${safe}`\<close>\<close>
  "filename e f = decimal (now e) @ ''-'' @ sanitize (originalname f)"

definition uploadsDir :: "env \<Rightarrow> string" where
  "uploadsDir e = dirname e @ ''/data/uploads''"

definition stored_path :: "env \<Rightarrow> upload_file \<Rightarrow> string" where
  "stored_path e f = uploadsDir e @ ''/'' @ filename e f"

definition multerFileTooLarge :: jserror where
  "multerFileTooLarge = \<lparr>message = ''File too large'', isMulterError = True, epath = None\<rparr>"

definition upload_single ::
  "(upload_file \<Rightarrow> jserror option) \<Rightarrow> nat \<Rightarrow> env \<Rightarrow> incoming \<Rightarrow> request io" where
  "upload_single fileFilter fileSize e inc w =
     (case in_file inc of
        None \<Rightarrow> (Inr \<lparr>req_file = None, req_prompt = in_prompt inc\<rparr>, w)
      | Some f \<Rightarrow>
          (case fileFilter f of
             Some err \<Rightarrow> (Inl err, w)
           | None \<Rightarrow>
               if fsize f > fileSize then (Inl multerFileTooLarge, w)
               else (Inr \<lparr>req_file = Some (upload_file.extend f (stored_file.fields (stored_path e f))),
                          req_prompt = in_prompt inc\<rparr>,
                     w\<lparr>files := (files w)(stored_path e f \<mapsto> bytes f)\<rparr>)))"

definition image_or_pdf_filter :: "upload_file \<Rightarrow> jserror option" where
  \<comment> \<open>\<^verbatim>\<open>fileFilter\<close> of server.js and part_000\<close>
  "image_or_pdf_filter f =
     (if startsWith (mimetype f) ''image/'' \<or> mimetype f = ''application/pdf'' then None
      else Some (newError ''Only image and PDF files are allowed.''))"

definition image_filter :: "upload_file \<Rightarrow> jserror option" where
  \<comment> \<open>\<^verbatim>\<open>fileFilter\<close> of part_001\<close>
  "image_filter f =
     (if startsWith (mimetype f) ''image/'' then None
      else Some (newError ''Only image files are allowed.''))"

definition pdf_filter :: "upload_file \<Rightarrow> jserror option" where
  \<comment> \<open>\<^verbatim>\<open>fileFilter\<close> of part_002\<close>
  "pdf_filter f =
     (if mimetype f = ''application/pdf'' then None
      else Some (newError ''Only PDF files are allowed!''))"

definition server_fileSize :: nat where
  "server_fileSize = 25 * 1024 * 1024"

definition part000_fileSize :: nat where
  "part000_fileSize = 10 * 1024 * 1024"

definition part001_fileSize :: nat where
  "part001_fileSize = 5 * 1024 * 1024"

definition part002_fileSize :: nat where
  "part002_fileSize = 5 * 1024 * 1024"

subsection \<open>The error handlers\<close>

definition server_errorHandler :: "jserror \<Rightarrow> http_response" where
  "server_errorHandler err =
     (if isMulterError err then \<lparr>status = 400, body = [(''error'', JStr (message err))]\<rparr>
      else \<lparr>status = 500,
            body = [(''error'', JStr (if message err = [] then ''Internal Server Error''
                                       else message err))]\<rparr>)"

definition part000_errorHandler :: "jserror \<Rightarrow> http_response" where
  \<comment> \<open>part_000 and part_001 have the same handler\<close>
  "part000_errorHandler err =
     (if isMulterError err
      then \<lparr>status = 400, body = [(''error'', JStr (''File upload error: '' @ message err))]\<rparr>
      else \<lparr>status = 500,
            body = [(''error'', JStr (if message err = [] then ''Internal Server Error''
                                       else message err))]\<rparr>)"

definition part002_errorHandler :: "env \<Rightarrow> jserror \<Rightarrow> http_response" where
  "part002_errorHandler e err =
     \<lparr>status = 500,
      body = [(''error'', JStr ''Something went wrong!''),
              (''message'', JStr (if NODE_ENV e = Some ''development'' then message err
                                   else ''Internal server error''))]
             @ (case epath err of None \<Rightarrow> [] | Some p \<Rightarrow> [(''path'', JStr p)])\<rparr>"

section \<open>server.js: the hosted-parser variant\<close>

definition uploadFileToLlamaParse :: "env \<Rightarrow> string \<Rightarrow> string \<Rightarrow> (string option) io" where
  \<comment> \<open>reads the file, posts it, returns \<^verbatim>\<open>result.id\<close>; its catch block logs and rethrows\<close>
  "uploadFileToLlamaParse e filePath fileName =
     then_io (readFile filePath) (\<lambda>fileBuffer w.
       let w1 = emit [ParserUpload fileName fileBuffer] w in
       case upload_reply e of
         Inl err \<Rightarrow> (Inl err, w1)
       | Inr response \<Rightarrow>
           if \<not> ok response then
             (Inl (newError (''Upload failed ('' @ decimal (r_status response) @ ''): ''
                             @ r_text response)), w1)
           else
             (case r_json response of
                Inl err \<Rightarrow> (Inl err, w1)
              | Inr result \<Rightarrow> (Inr (id_field result), w1)))"

definition maxContentLength :: nat where
  "maxContentLength = 10000"

definition truncatedContent :: "string \<Rightarrow> string" where
  "truncatedContent parsedContent =
     (if length parsedContent > maxContentLength
      then take maxContentLength parsedContent @ ''... [content truncated]''
      else parsedContent)"

definition server_user_content :: "string \<Rightarrow> string \<Rightarrow> string" where
  \<comment> \<open>\<^verbatim>\<open>`Instruction: '${prompt}'\n\nContent:\n${truncatedContent}`\<close>\<close>
  "server_user_content prompt parsedContent =
     ''Instruction: '' @ [quote] @ prompt @ [quote, nl, nl] @ ''Content:'' @ [nl]
     @ truncatedContent parsedContent"

definition server_requestBody :: "string \<Rightarrow> string \<Rightarrow> completion_request" where
  "server_requestBody prompt parsedContent =
     \<lparr>model = ''llama3-70b-8192'',
      messages =
        [\<lparr>role = ''system'', content = Plain ''You are a helpful assistant.''\<rparr>,
         \<lparr>role = ''user'', content = Plain (server_user_content prompt parsedContent)\<rparr>],
      temperature = 0,
      max_tokens = Some 2048,
      max_completion_tokens = None,
      top_p = None,
      stream = None,
      stop_null = False\<rparr>"

definition or_else :: "string option \<Rightarrow> string option \<Rightarrow> string option" where
  \<comment> \<open>\<^verbatim>\<open>a || b\<close>\<close>
  "or_else a b = (if truthy a then a else b)"

definition server_try :: "env \<Rightarrow> request \<Rightarrow> http_response io" where
  \<comment> \<open>the \<^verbatim>\<open>try\<close> block of the handler\<close>
  "server_try e req =
     (let prompt = map_option trim (req_prompt req) in
      case req_file req of
        None \<Rightarrow> throw (newError ''No file uploaded.'')
      | Some file \<Rightarrow>
          (case prompt of
             None \<Rightarrow> throw (newError ''No prompt provided.'')
           | Some prompt_text \<Rightarrow>
          if prompt_text = [] then throw (newError ''No prompt provided.'')
          else if \<not> truthy (LLAMA_CLOUD_API_KEY e) then
            throw (newError ''LLAMA_CLOUD_API_KEY is not set in environment variables'')
          else if \<not> truthy (GROQ_API_KEY e) then
            throw (newError ''GROQ_API_KEY is not set in environment variables'')
          else
            then_io (uploadFileToLlamaParse e (path file) (originalname file)) (\<lambda>jobId.
            then_io (pollForResult e jobId) (\<lambda>parsedContent.
              case parsedContent of
                None \<Rightarrow> throw (newError ''No content returned by LlamaParse.'')
              | Some parsed \<Rightarrow>
              if parsed = [] then throw (newError ''No content returned by LlamaParse.'')
              else
                then_io (fetch_completion e (server_requestBody prompt_text parsed)) (\<lambda>groqResp.
                  if \<not> ok groqResp then
                    throw (newError (''Groq API error ('' @ decimal (r_status groqResp) @ ''): ''
                                     @ r_text groqResp))
                  else
                    (case r_json groqResp of
                       Inl err \<Rightarrow> throw err
                     | Inr data \<Rightarrow>
                         (case or_else (message_content data) (or_else (choice_text data) (Some [])) of
                            None \<Rightarrow> throw (newError ''No output text received from Groq'')
                          | Some outputText \<Rightarrow>
                              if outputText = [] then
                                throw (newError ''No output text received from Groq'')
                              else (\<lambda>w. ret (success_response outputText)
                                           (if_path (Some (path file)) try_unlink w)))))))))"

definition server_handler :: "env \<Rightarrow> request \<Rightarrow> world \<Rightarrow> http_response \<times> world" where
  \<comment> \<open>\<^verbatim>\<open>try { ... } catch (err) { res.status(500).json(...) } finally { unlink }\<close>\<close>
  "server_handler e req w =
     (let filePath = map_option path (req_file req) in
      case server_try e req w of
        (Inr response, w1) \<Rightarrow> (response, if_path filePath try_unlink w1)
      | (Inl err, w1) \<Rightarrow>
          (\<lparr>status = 500, body = [(''success'', JBool False), (''error'', JStr (message err))]\<rparr>,
           if_path filePath try_unlink w1))"

definition server_endpoint :: "env \<Rightarrow> incoming \<Rightarrow> world \<Rightarrow> http_response \<times> world" where
  \<comment> \<open>\<^verbatim>\<open>app.post("/api/process", upload.single("file"), handler)\<close> with \<^verbatim>\<open>app.use(errorHandler)\<close>\<close>
  "server_endpoint e inc w =
     (case upload_single image_or_pdf_filter server_fileSize e inc w of
        (Inl err, w1) \<Rightarrow> (server_errorHandler err, w1)
      | (Inr req, w1) \<Rightarrow> server_handler e req w1)"

section \<open>part_000 and part_001: images, and PDFs with an OCR fallback\<close>

definition extraction_system_prompt :: string where
  "extraction_system_prompt =
     ''You are a highly efficient text extraction assistant. Your sole purpose is to extract and return text from an image. You must not add any commentary, explanations, or conversational text. Your response should be nothing but the extracted text.''"

definition analysis_system_prompt :: string where
  "analysis_system_prompt =
     ''You are a text analysis assistant. Your sole purpose is to analyze the provided text based on the user'' @ [quote] @ ''s prompt. You must not add any commentary, explanations, or conversational text unless explicitly asked.''"

definition scout_requestBody :: "chat_message list \<Rightarrow> completion_request" where
  \<comment> \<open>\<^verbatim>\<open>requestBody\<close> of part_000 and part_001\<close>
  "scout_requestBody msgs =
     \<lparr>model = ''meta-llama/llama-4-scout-17b-16e-instruct'',
      messages = msgs,
      temperature = 0,
      max_tokens = Some 1024,
      max_completion_tokens = None,
      top_p = None,
      stream = None,
      stop_null = False\<rparr>"

definition image_messages :: "string \<Rightarrow> string \<Rightarrow> chat_message list" where
  \<comment> \<open>system instruction, then the prompt and the inline image\<close>
  "image_messages prompt url =
     [\<lparr>role = ''system'', content = Plain extraction_system_prompt\<rparr>,
      \<lparr>role = ''user'', content = Parts [TextPart prompt, ImageUrl url]\<rparr>]"

definition scout_complete :: "env \<Rightarrow> chat_message list \<Rightarrow> http_response io" where
  \<comment> \<open>from \<^verbatim>\<open>const requestBody\<close> to \<^verbatim>\<open>res.json\<close>, the same text in part_000 and part_001\<close>
  "scout_complete e msgs =
     then_io (fetch_completion e (scout_requestBody msgs)) (\<lambda>groqResponse.
       if \<not> ok groqResponse then
         throw (newError (''Groq API Error: '' @ decimal (r_status groqResponse) @ '' - ''
                          @ r_text groqResponse))
       else
         (case r_json groqResponse of
            Inl err \<Rightarrow> throw err
          | Inr data \<Rightarrow>
              (case message_content data of
                 None \<Rightarrow> throw (newError ''Invalid response or missing content from Groq API.'')
               | Some outputText \<Rightarrow>
                   if outputText = [] then
                     throw (newError ''Invalid response or missing content from Groq API.'')
                   else ret (success_response outputText))))"

definition part000_messages ::
  "env \<Rightarrow> stored_file \<Rightarrow> string \<Rightarrow> world \<Rightarrow> (jserror + chat_message list) \<times> string option \<times> world" where
  \<comment> \<open>the branch on the MIME type; the second component is \<^verbatim>\<open>tempImagePath\<close>\<close>
  "part000_messages e file prompt w =
     (if mimetype file = ''application/pdf'' then
        (case readFile (path file) w of
           (Inl err, w1) \<Rightarrow> (Inl err, None, w1)
         | (Inr pdfBuffer, w1) \<Rightarrow>
             (case pdf_text e pdfBuffer of
                Inl err \<Rightarrow> (Inl err, None, w1)
              | Inr extractedText \<Rightarrow>
                  if extractedText \<noteq> [] \<and> length (trim extractedText) > 0 then
                    (Inr [\<lparr>role = ''system'', content = Plain analysis_system_prompt\<rparr>,
                          \<lparr>role = ''user'',
                           content = Parts [TextPart (''Prompt: '' @ prompt @ [nl, nl]
                                              @ ''Document Text:'' @ [nl] @ extractedText)]\<rparr>],
                     None, w1)
                  else
                    (case poppler_new e of
                       Some err \<Rightarrow> (Inl err, None, w1)
                     | None \<Rightarrow>
                         (let tempImagePath = tmpdir e @ ''/'' @ ''temp-'' @ decimal (now_png e);
                              png = tempImagePath @ ''-1.png'';
                              w2 = emit [PdfToPng (path file) png]
                                     (case fst (pdfToPng e pdfBuffer) of
                                        None \<Rightarrow> w1
                                      | Some img \<Rightarrow> w1\<lparr>files := (files w1)(png \<mapsto> img)\<rparr>)
                          in case snd (pdfToPng e pdfBuffer) of
                               Some err \<Rightarrow> (Inl err, Some tempImagePath, w2)
                             | None \<Rightarrow>
                                 (case readFile png w2 of
                                    (Inl err, w3) \<Rightarrow> (Inl err, Some tempImagePath, w3)
                                  | (Inr imageBuffer, w3) \<Rightarrow>
                                      (Inr (image_messages prompt
                                              (''data:image/png;base64,'' @ base64 e imageBuffer)),
                                       Some tempImagePath, w3))))))
      else if startsWith (mimetype file) ''image/'' then
        (case readFile (path file) w of
           (Inl err, w1) \<Rightarrow> (Inl err, None, w1)
         | (Inr imageBuffer, w1) \<Rightarrow>
             (Inr (image_messages prompt
                     (''data:'' @ mimetype file @ '';base64,'' @ base64 e imageBuffer)),
              None, w1))
      else (Inl (newError ''Unsupported file type.''), None, w))"

definition part000_try ::
  "env \<Rightarrow> request \<Rightarrow> world \<Rightarrow> (jserror + http_response) \<times> string option \<times> world" where
  "part000_try e req w =
     (case req_file req of
        None \<Rightarrow> (Inl (newError ''No file uploaded.''), None, w)
      | Some file \<Rightarrow>
          (case req_prompt req of
             None \<Rightarrow> (Inl (newError ''No prompt provided.''), None, w)
           | Some prompt \<Rightarrow>
               if prompt = [] then (Inl (newError ''No prompt provided.''), None, w)
               else
                 (case part000_messages e file prompt w of
                    (Inl err, tempImagePath, w1) \<Rightarrow> (Inl err, tempImagePath, w1)
                  | (Inr msgs, tempImagePath, w1) \<Rightarrow>
                      (case scout_complete e msgs w1 of
                         (r, w2) \<Rightarrow> (r, tempImagePath, w2)))))"

definition part000_handler :: "env \<Rightarrow> request \<Rightarrow> world \<Rightarrow> http_response \<times> world" where
  \<comment> \<open>\<^verbatim>\<open>try { ... } catch (error) { next(error) } finally { unlink both }\<close>\<close>
  "part000_handler e req w =
     (let filePath = map_option path (req_file req) in
      case part000_try e req w of
        (r, tempImagePath, w1) \<Rightarrow>
          (case r of Inr response \<Rightarrow> response | Inl err \<Rightarrow> part000_errorHandler err,
           if_path tempImagePath (\<lambda>t. try_unlink (t @ ''-1.png''))
             (if_path filePath try_unlink w1)))"

definition part000_endpoint :: "env \<Rightarrow> incoming \<Rightarrow> world \<Rightarrow> http_response \<times> world" where
  "part000_endpoint e inc w =
     (case upload_single image_or_pdf_filter part000_fileSize e inc w of
        (Inl err, w1) \<Rightarrow> (part000_errorHandler err, w1)
      | (Inr req, w1) \<Rightarrow> part000_handler e req w1)"

definition builtin_prompt :: string where
  \<comment> \<open>\<^verbatim>\<open>const prompt\<close> of part_001\<close>
  "builtin_prompt =
     ''Extract all text from the provided image. Respond with only the extracted text, nothing else. Do not add any introductory or concluding sentences or conversational filler. Provide only the raw text.''"

definition part001_payload :: "env \<Rightarrow> stored_file \<Rightarrow> string \<Rightarrow> completion_request" where
  \<comment> \<open>the request body built from the stored file and its content\<close>
  "part001_payload e file imageBuffer =
     scout_requestBody (image_messages builtin_prompt
        (''data:'' @ mimetype file @ '';base64,'' @ base64 e imageBuffer))"

definition part001_try :: "env \<Rightarrow> request \<Rightarrow> http_response io" where
  "part001_try e req =
     (case req_file req of
        None \<Rightarrow> throw (newError ''No file uploaded.'')
      | Some file \<Rightarrow>
          if path file = [] then throw (newError ''No file uploaded.'')
          else
            then_io (readFile (path file)) (\<lambda>imageBuffer.
              scout_complete e (image_messages builtin_prompt
                (''data:'' @ mimetype file @ '';base64,'' @ base64 e imageBuffer))))"

definition part001_handler :: "env \<Rightarrow> request \<Rightarrow> world \<Rightarrow> http_response \<times> world" where
  "part001_handler e req w =
     (let filePath = map_option path (req_file req) in
      case part001_try e req w of
        (r, w1) \<Rightarrow>
          (case r of Inr response \<Rightarrow> response | Inl err \<Rightarrow> part000_errorHandler err,
           if_path filePath try_unlink w1))"

definition part001_endpoint :: "env \<Rightarrow> incoming \<Rightarrow> world \<Rightarrow> http_response \<times> world" where
  "part001_endpoint e inc w =
     (case upload_single image_filter part001_fileSize e inc w of
        (Inl err, w1) \<Rightarrow> (part000_errorHandler err, w1)
      | (Inr req, w1) \<Rightarrow> part001_handler e req w1)"

section \<open>part_002: the PDF-only variant\<close>

definition default_pdf :: "env \<Rightarrow> string" where
  "default_pdf e = dirname e @ ''/node_modules/pdf-parse/test/data/05-versions-space.pdf''"

definition part002_requestBody :: "string \<Rightarrow> string \<Rightarrow> completion_request" where
  "part002_requestBody resumeText prompt =
     \<lparr>model = ''meta-llama/llama-4-scout-17b-16e-instruct'',
      messages =
        [\<lparr>role = ''user'',
          content = Plain (''Here is the resume text:'' @ [nl] @ resumeText @ [nl, nl]
                           @ ''User'' @ [quote] @ ''s question:'' @ [nl] @ prompt)\<rparr>],
      temperature = 7 / 10,
      max_tokens = None,
      max_completion_tokens = Some 1024,
      top_p = Some 1,
      stream = Some False,
      stop_null = True\<rparr>"

definition part002_filePath :: "env \<Rightarrow> request \<Rightarrow> string" where
  \<comment> \<open>the default test PDF when no file was uploaded\<close>
  "part002_filePath e req =
     (case req_file req of None \<Rightarrow> default_pdf e | Some file \<Rightarrow> path file)"

definition part002_try :: "env \<Rightarrow> request \<Rightarrow> http_response io" where
  "part002_try e req =
     (let filePath = part002_filePath e req in
      (\<lambda>w. if \<not> existsSync filePath w then throw (newError (''File not found: '' @ filePath)) w
        else
          (let prompt = (case req_prompt req of
                           None \<Rightarrow> ''No prompt provided''
                         | Some p \<Rightarrow> if p = [] then ''No prompt provided'' else p) in
           then_io (readFile filePath) (\<lambda>pdfBuffer.
             case pdf_text e pdfBuffer of
               Inl err \<Rightarrow> throw err
             | Inr resumeText \<Rightarrow>
                 (\<lambda>w1.
                    then_io (fetch_completion e (part002_requestBody resumeText prompt))
                      (\<lambda>groqResponse.
                         if \<not> ok groqResponse then
                           ret \<lparr>status = r_status groqResponse,
                                body = [(''error'', JStr ''API Error''),
                                        (''details'', JStr (r_text groqResponse))]\<rparr>
                         else
                           (case r_json groqResponse of
                              Inl err \<Rightarrow> throw err
                            | Inr data \<Rightarrow>
                                (case message_content data of
                                   None \<Rightarrow> throw (newError ''Invalid response from Groq API'')
                                 | Some outputText \<Rightarrow>
                                     if outputText = [] then
                                       throw (newError ''Invalid response from Groq API'')
                                     else ret (success_response outputText))))
                      (if req_file req \<noteq> None then try_unlink filePath w1 else w1))) w)))"

definition part002_handler :: "env \<Rightarrow> request \<Rightarrow> world \<Rightarrow> http_response \<times> world" where
  \<comment> \<open>\<^verbatim>\<open>try { ... } catch (error) { unlink if still there; next(error) }\<close>\<close>
  "part002_handler e req w =
     (case part002_try e req w of
        (Inr response, w1) \<Rightarrow> (response, w1)
      | (Inl err, w1) \<Rightarrow>
          (part002_errorHandler e err,
           if req_file req \<noteq> None \<and> existsSync (part002_filePath e req) w1
           then try_unlink (part002_filePath e req) w1 else w1))"

definition part002_endpoint :: "env \<Rightarrow> incoming \<Rightarrow> world \<Rightarrow> http_response \<times> world" where
  "part002_endpoint e inc w =
     (case upload_single pdf_filter part002_fileSize e inc w of
        (Inl err, w1) \<Rightarrow> (part002_errorHandler e err, w1)
      | (Inr req, w1) \<Rightarrow> part002_handler e req w1)"

section \<open>Observations on a run\<close>

definition upstream :: "event \<Rightarrow> bool" where
  \<comment> \<open>a call to the hosted parser or to the completion service\<close>
  "upstream ev =
     (case ev of ParserUpload n b \<Rightarrow> True | ParserPoll j \<Rightarrow> True | Completion b \<Rightarrow> True
      | _ \<Rightarrow> False)"

definition upstream_calls :: "world \<Rightarrow> event list" where
  "upstream_calls w = filter upstream (trace w)"

definition deletions :: "string \<Rightarrow> world \<Rightarrow> nat" where
  \<comment> \<open>how many \<^verbatim>\<open>unlink\<close> calls removed the file at \<open>p\<close>\<close>
  "deletions p w = length (filter (\<lambda>ev. ev = Unlink p True) (trace w))"

definition is_unlink :: "string \<Rightarrow> event \<Rightarrow> bool" where
  "is_unlink p ev = (case ev of Unlink q removed \<Rightarrow> q = p | _ \<Rightarrow> False)"

definition unlink_calls :: "string \<Rightarrow> world \<Rightarrow> nat" where
  \<comment> \<open>how many times \<^verbatim>\<open>unlink\<close> was called on \<open>p\<close>, whether it removed the file or not\<close>
  "unlink_calls p w = length (filter (is_unlink p) (trace w))"

definition completion_requests :: "world \<Rightarrow> completion_request list" where
  "completion_requests w =
     concat (map (\<lambda>ev. case ev of Completion b \<Rightarrow> [b] | _ \<Rightarrow> []) (trace w))"

definition png_path :: "env \<Rightarrow> string" where
  "png_path e = tmpdir e @ ''/'' @ ''temp-'' @ decimal (now_png e) @ ''-1.png''"

definition rasterizations :: "world \<Rightarrow> nat" where
  "rasterizations w = length (filter (\<lambda>ev. case ev of PdfToPng a b \<Rightarrow> True | _ \<Rightarrow> False) (trace w))"

definition error_message :: "http_response \<Rightarrow> string option" where
  \<comment> \<open>the \<^verbatim>\<open>error\<close> field of a JSON body, when it is text\<close>
  "error_message r = (case map_of (body r) ''error'' of Some (JStr m) \<Rightarrow> Some m | _ \<Rightarrow> None)"

definition success_flag :: "http_response \<Rightarrow> jv option" where
  \<comment> \<open>the \<^verbatim>\<open>success\<close> field of a JSON body\<close>
  "success_flag r = map_of (body r) ''success''"

definition sent_by :: "(world \<Rightarrow> http_response \<times> world) \<Rightarrow> world \<Rightarrow> completion_request list" where
  \<comment> \<open>the completion requests that a run from \<open>w\<close> adds to the trace\<close>
  "sent_by run w = drop (length (completion_requests w)) (completion_requests (snd (run w)))"

section \<open>Sample inputs\<close>

definition no_json :: json_view where
  "no_json = \<lparr>id_field = None, markdown = None, detail = None, message_content = None,
              choice_text = None, stringified = ''{}''\<rparr>"

definition demo_uploaded :: reply where
  "demo_uploaded =
     \<lparr>r_status = 200, r_text = ''{id:job-1}'',
      r_json = Inr (no_json\<lparr>id_field := Some ''job-1'', stringified := ''{id:job-1}''\<rparr>)\<rparr>"

definition demo_pending :: reply where
  "demo_pending =
     \<lparr>r_status = 400, r_text = ''{detail:Job not completed yet}'',
      r_json = Inr (no_json\<lparr>detail := Some ''Job not completed yet'',
                             stringified := ''{detail:Job not completed yet}''\<rparr>)\<rparr>"

definition demo_parsed :: reply where
  "demo_parsed =
     \<lparr>r_status = 200, r_text = ''{markdown:# Invoice 7}'',
      r_json = Inr (no_json\<lparr>markdown := Some ''# Invoice 7'',
                             stringified := ''{markdown:# Invoice 7}''\<rparr>)\<rparr>"



definition demo_answer :: reply where
  "demo_answer =
     \<lparr>r_status = 200, r_text = ''{choices:[{message:{content:Total due: 40}}]}'',
      r_json = Inr (no_json\<lparr>message_content := Some ''Total due: 40'',
                             stringified := ''{choices:[{message:{content:Total due: 40}}]}''\<rparr>)\<rparr>"

definition demo_env :: env where
  "demo_env =
     \<lparr>now = 42, now_png = 43, dirname = ''/app'', tmpdir = ''/tmp'',
      LLAMA_CLOUD_API_KEY = Some ''llx-1'', GROQ_API_KEY = Some ''gsk-1'', NODE_ENV = None,
      upload_reply = Inr demo_uploaded,
      poll_reply = (\<lambda>k. if k < 2 then Inr demo_pending else Inr demo_parsed),
      groq_reply = (\<lambda>b. Inr demo_answer),
      pdf_text = (\<lambda>buffer. Inr []),
      poppler_new = None,
      pdfToPng = (\<lambda>buffer. (Some ''PNG-page-1'', None)),
      base64 = (\<lambda>buffer. buffer)\<rparr>"




definition demo_env_resume :: env where
  "demo_env_resume = demo_env\<lparr>pdf_text := (\<lambda>buffer. Inr ''Jane Doe, engineer'')\<rparr>"

definition demo_pdf :: upload_file where
  "demo_pdf = \<lparr>originalname = ''my report.pdf'', mimetype = ''application/pdf'', fsize = 5,
               bytes = ''%PDF-''\<rparr>"

definition demo_png :: upload_file where
  "demo_png = \<lparr>originalname = ''scan 1.png'', mimetype = ''image/png'', fsize = 4,
               bytes = ''PNG1''\<rparr>"

definition demo_txt :: upload_file where
  "demo_txt = \<lparr>originalname = ''notes.txt'', mimetype = ''text/plain'', fsize = 5,
               bytes = ''hello''\<rparr>"

definition demo_big_png :: upload_file where
  "demo_big_png = demo_png\<lparr>fsize := 30 * 1024 * 1024\<rparr>"

definition demo_big_pdf :: upload_file where
  "demo_big_pdf = demo_pdf\<lparr>fsize := 30 * 1024 * 1024\<rparr>"

definition demo_world :: world where
  "demo_world = \<lparr>files = [default_pdf demo_env \<mapsto> ''%PDF-default''], trace = []\<rparr>"

definition with_prompt :: "upload_file \<Rightarrow> incoming" where
  "with_prompt f = \<lparr>in_file = Some f, in_prompt = Some ''Summarise''\<rparr>"

definition without_prompt :: "upload_file \<Rightarrow> incoming" where
  "without_prompt f = \<lparr>in_file = Some f, in_prompt = None\<rparr>"

definition without_file :: incoming where
  "without_file = \<lparr>in_file = None, in_prompt = Some ''Summarise''\<rparr>"

definition demo_env_no_converter :: env where
  \<comment> \<open>an installation where constructing the PDF converter throws\<close>
  "demo_env_no_converter =
     demo_env\<lparr>poppler_new := Some (newError ''Poppler is not a constructor'')\<rparr>"

definition demo_long_parsed :: reply where
  "demo_long_parsed =
     \<lparr>r_status = 200, r_text = ''{markdown:aaa...}'',
      r_json = Inr (no_json\<lparr>markdown := Some (replicate 10001 (CHR ''a'')),
                             stringified := ''{markdown:aaa...}''\<rparr>)\<rparr>"

definition demo_env_long :: env where
  "demo_env_long = demo_env\<lparr>poll_reply := (\<lambda>k. Inr demo_long_parsed)\<rparr>"
section \<open>Properties of the polling loop\<close>

lemma polls_Suc: "polls j (Suc n) = [Sleep 5000, ParserPoll j] @ polls j n"
  by (simp add: polls_def)

lemma polls_add: "polls j (m + n) = polls j m @ polls j n"
  by (simp add: polls_def replicate_add)

lemma emit_emit: "emit ys (emit xs w) = emit (xs @ ys) w"
  by (simp add: emit_def)

lemma emit_Nil: "emit [] w = w"
  by (simp add: emit_def)

lemma pollLoop_pending:
  "a + m \<le> maxAttempts \<Longrightarrow>
   (\<forall>k. a \<le> k \<and> k < a + m \<longrightarrow> not_completed_yet (poll_reply e k)) \<Longrightarrow>
   pollLoop e j a w = pollLoop e j (a + m) (emit (polls j m) w)"
proof (induction m arbitrary: a w)
  case 0
  then show ?case by (simp add: polls_def emit_Nil)
next
  case (Suc m)
  have pend: "not_completed_yet (poll_reply e a)"
    using Suc.prems(2) by simp
  have lt: "a < maxAttempts"
    using Suc.prems(1) by simp
  have step: "pollLoop e j a w = pollLoop e j (Suc a) (emit [Sleep 5000, ParserPoll j] w)"
    using pend lt
    by (subst pollLoop.simps)
       (auto simp: not_completed_yet_def ok_def split: sum.splits)
  have rest: "pollLoop e j (Suc a) (emit [Sleep 5000, ParserPoll j] w)
      = pollLoop e j (Suc a + m) (emit (polls j m) (emit [Sleep 5000, ParserPoll j] w))"
    using Suc.prems by (intro Suc.IH) auto
  show ?case
    using step rest by (simp add: emit_emit polls_Suc)
qed


lemma pollLoop_step:
  "a < maxAttempts \<Longrightarrow> not_completed_yet (poll_reply e a) \<Longrightarrow>
   pollLoop e j a w = pollLoop e j (Suc a) (emit [Sleep 5000, ParserPoll j] w)"
  by (subst pollLoop.simps)
     (auto simp: not_completed_yet_def ok_def split: sum.splits)

lemma pollLoop_stop:
  "a < maxAttempts \<Longrightarrow> \<not> not_completed_yet (poll_reply e a) \<Longrightarrow>
   snd (pollLoop e j a w) = emit [Sleep 5000, ParserPoll j] w"
  by (subst pollLoop.simps)
     (auto simp: not_completed_yet_def Let_def split: sum.splits)

lemma pollLoop_exhausted:
  "\<not> a < maxAttempts \<Longrightarrow>
   pollLoop e j a w = (Inl (newError ''Parsing timeout - job took too long to complete''), w)"
  by (subst pollLoop.simps) simp

lemma pollLoop_bound:
  "a \<le> maxAttempts \<Longrightarrow>
   \<exists>m. a + m \<le> maxAttempts \<and> snd (pollLoop e j a w) = emit (polls j m) w"
proof (induction "maxAttempts - a" arbitrary: a w)
  case 0
  then have "\<not> a < maxAttempts" by simp
  then have "snd (pollLoop e j a w) = emit (polls j 0) w"
    by (simp add: pollLoop_exhausted polls_def emit_Nil)
  then show ?case using "0.prems" by (intro exI [of _ 0]) simp
next
  case (Suc d)
  then have lt: "a < maxAttempts" by simp
  show ?case
  proof (cases "not_completed_yet (poll_reply e a)")
    case True
    have "d = maxAttempts - Suc a" using Suc.hyps(2) by simp
    moreover have "Suc a \<le> maxAttempts" using lt by simp
    ultimately obtain m where m: "Suc a + m \<le> maxAttempts"
      "snd (pollLoop e j (Suc a) (emit [Sleep 5000, ParserPoll j] w))
        = emit (polls j m) (emit [Sleep 5000, ParserPoll j] w)"
      using Suc.hyps(1) by blast
    have "snd (pollLoop e j a w) = emit (polls j (Suc m)) w"
      using m(2) by (simp add: pollLoop_step [OF lt True] emit_emit polls_Suc)
    then show ?thesis using m(1) by (intro exI [of _ "Suc m"]) simp
  next
    case False
    have "snd (pollLoop e j a w) = emit (polls j (Suc 0)) w"
      by (simp add: pollLoop_stop [OF lt False] polls_def)
    then show ?thesis using lt by (intro exI [of _ "Suc 0"]) simp
  qed
qed

lemma pollForResult_after:
  "n \<le> maxAttempts \<Longrightarrow> (\<forall>k<n. not_completed_yet (poll_reply e k)) \<Longrightarrow>
   pollForResult e j w = pollLoop e j n (emit (polls j n) w)"
  using pollLoop_pending [of 0 n e j w] by (simp add: pollForResult_def)

lemma pollLoop_last:
  assumes "n < maxAttempts" and "poll_reply e n = Inr r"
  shows "pollLoop e j n (emit (polls j n) w) =
     (if ok r then
        (case r_json r of
           Inl err \<Rightarrow> (Inl err, emit (polls j (Suc n)) w)
         | Inr v \<Rightarrow> (Inr (markdown v), emit (polls j (Suc n)) w))
      else if r_status r = 400 then
        (case r_json r of
           Inl err \<Rightarrow> (Inl err, emit (polls j (Suc n)) w)
         | Inr v \<Rightarrow>
             if detail v = Some ''Job not completed yet''
             then pollLoop e j (n + 1) (emit (polls j (Suc n)) w)
             else (Inl (newError (''Error: '' @ stringified v)), emit (polls j (Suc n)) w))
      else (Inl (newError (''Error checking job status ('' @ decimal (r_status r)
                            @ ''): '' @ r_text r)), emit (polls j (Suc n)) w))"
proof -
  have "polls j (Suc n) = polls j n @ [Sleep 5000, ParserPoll j]"
    using polls_add [of j n 1] by (simp add: polls_def)
  then show ?thesis
    using assms
    by (simp add: pollLoop.simps [of e j n "emit (polls j n) w"] emit_emit Let_def
             split: sum.splits)
qed



section \<open>Worlds, traces and the basic effects\<close>

lemma files_emit: "files (emit evs w) = files w"
  by (simp add: emit_def)

lemma trace_emit: "trace (emit evs w) = trace w @ evs"
  by (simp add: emit_def)

lemma deletions_emit:
  "deletions p (emit evs w) = deletions p w + length (filter (\<lambda>ev. ev = Unlink p True) evs)"
  by (simp add: deletions_def emit_def)

lemma deletions_files_update: "deletions p (w\<lparr>files := fs\<rparr>) = deletions p w"
  by (simp add: deletions_def)

lemma filter_polls: "filter (\<lambda>ev. ev = Unlink p b) (polls j m) = []"
  by (induction m) (simp_all add: polls_def)

lemma upstream_calls_emit: "upstream_calls (emit evs w) = upstream_calls w @ filter upstream evs"
  by (simp add: upstream_calls_def emit_def)

lemma upstream_calls_files_update: "upstream_calls (w\<lparr>files := fs\<rparr>) = upstream_calls w"
  by (simp add: upstream_calls_def)

lemma pollForResult_world:
  "pollForResult e j w = (r, w') \<Longrightarrow> \<exists>m\<le>60. w' = emit (polls j m) w"
  using pollLoop_bound [of 0 e j w] by (auto simp: pollForResult_def maxAttempts_def)

lemma try_unlink_present:
  "files w p = Some b \<Longrightarrow>
   try_unlink p w = emit [Unlink p True] (w\<lparr>files := (files w)(p := None)\<rparr>)"
  by (simp add: try_unlink_def unlink_def)

lemma try_unlink_absent:
  "files w p = None \<Longrightarrow> try_unlink p w = emit [Unlink p False] w"
  by (simp add: try_unlink_def unlink_def)

lemma files_try_unlink: "files (try_unlink p w) = (files w)(p := None)"
  by (cases "files w p") (auto simp: try_unlink_present try_unlink_absent files_emit)

lemma deletions_try_unlink:
  "deletions q (try_unlink p w) =
     deletions q w + (if q = p \<and> files w p \<noteq> None then 1 else 0)"
  by (cases "files w p") (auto simp: try_unlink_present try_unlink_absent deletions_emit
        deletions_files_update)

lemma stored_path_nonempty: "stored_path e f \<noteq> []"
  by (simp add: stored_path_def uploadsDir_def)

lemma server_try_files:
  assumes "server_try e req w = (r, w')" and "req_file req = Some file"
    and "files w (path file) \<noteq> None" and "path file \<noteq> []"
  shows "(case r of
            Inl err \<Rightarrow> files w' = files w \<and> deletions (path file) w' = deletions (path file) w
          | Inr response \<Rightarrow> files w' = (files w)(path file := None)
              \<and> deletions (path file) w' = deletions (path file) w + 1)"
  using assms
  by (auto simp: server_try_def then_io_def uploadFileToLlamaParse_def readFile_def
        fetch_completion_def ret_def throw_def if_path_def Let_def
        files_emit deletions_emit files_try_unlink deletions_try_unlink filter_polls
        split: option.splits sum.splits prod.splits if_splits
        dest!: pollForResult_world)

section \<open>Cleanup of the upload\<close>

lemma server_cleanup:
  assumes "in_file inc = Some f" and "image_or_pdf_filter f = None" and "fsize f \<le> server_fileSize"
  shows "files (snd (server_endpoint e inc w)) (stored_path e f) = None
         \<and> deletions (stored_path e f) (snd (server_endpoint e inc w))
             = deletions (stored_path e f) w + 1"
proof -
  let ?p = "stored_path e f"
  let ?w1 = "w\<lparr>files := (files w)(?p \<mapsto> bytes f)\<rparr>"
  let ?file = "upload_file.extend f (stored_file.fields ?p)"
  let ?req = "\<lparr>req_file = Some ?file, req_prompt = in_prompt inc\<rparr>"
  have up: "upload_single image_or_pdf_filter server_fileSize e inc w = (Inr ?req, ?w1)"
    using assms by (simp add: upload_single_def)
  have pf: "path ?file = ?p"
    by (simp add: upload_file.extend_def stored_file.fields_def)
  obtain r w2 where t: "server_try e ?req ?w1 = (r, w2)"
    by (cases "server_try e ?req ?w1") auto
  have "case r of
          Inl err \<Rightarrow> files w2 = files ?w1 \<and> deletions (path ?file) w2 = deletions (path ?file) ?w1
        | Inr response \<Rightarrow> files w2 = (files ?w1)(path ?file := None)
            \<and> deletions (path ?file) w2 = deletions (path ?file) ?w1 + 1"
    by (rule server_try_files [OF t]) (simp_all add: pf stored_path_nonempty)
  then show ?thesis
    using t
    by (cases r)
       (simp_all add: server_endpoint_def server_handler_def up pf if_path_def
          stored_path_nonempty files_try_unlink deletions_try_unlink deletions_files_update)
qed

lemma scout_complete_world:
  "scout_complete e msgs w = (r, w') \<Longrightarrow> w' = emit [Completion (scout_requestBody msgs)] w"
  by (auto simp: scout_complete_def then_io_def fetch_completion_def ret_def throw_def
        split: sum.splits option.splits if_splits)

lemma stored_file_path: "path (upload_file.extend f (stored_file.fields p)) = p"
  by (simp add: upload_file.extend_def stored_file.fields_def)

lemma stored_file_mimetype: "mimetype (upload_file.extend f (stored_file.fields p)) = mimetype f"
  by (simp add: upload_file.extend_def)

lemma stored_file_originalname:
  "originalname (upload_file.extend f (stored_file.fields p)) = originalname f"
  by (simp add: upload_file.extend_def)

lemma part001_cleanup:
  assumes "in_file inc = Some f" and "image_filter f = None" and "fsize f \<le> part001_fileSize"
  shows "files (snd (part001_endpoint e inc w)) (stored_path e f) = None
         \<and> deletions (stored_path e f) (snd (part001_endpoint e inc w))
             = deletions (stored_path e f) w + 1"
  using assms
  by (auto simp: part001_endpoint_def upload_single_def part001_handler_def part001_try_def
        then_io_def readFile_def throw_def if_path_def stored_file_path stored_path_nonempty
        files_emit deletions_emit files_try_unlink deletions_try_unlink deletions_files_update
        split: prod.splits sum.splits option.splits if_splits
        dest!: scout_complete_world)

lemma part002_cleanup:
  assumes "in_file inc = Some f" and "pdf_filter f = None" and "fsize f \<le> part002_fileSize"
  shows "files (snd (part002_endpoint e inc w)) (stored_path e f) = None
         \<and> deletions (stored_path e f) (snd (part002_endpoint e inc w))
             = deletions (stored_path e f) w + 1"
  using assms
  by (auto simp: part002_endpoint_def upload_single_def part002_handler_def part002_try_def
        part002_filePath_def existsSync_def fetch_completion_def ret_def Let_def
        then_io_def readFile_def throw_def stored_file_path stored_path_nonempty
        files_emit deletions_emit files_try_unlink deletions_try_unlink deletions_files_update
        split: prod.splits sum.splits option.splits if_splits)

lemma rasterizations_emit:
  "rasterizations (emit evs w) =
     rasterizations w + length (filter (\<lambda>ev. case ev of PdfToPng a b \<Rightarrow> True | _ \<Rightarrow> False) evs)"
  by (simp add: rasterizations_def emit_def)

lemma rasterizations_files_update: "rasterizations (w\<lparr>files := fs\<rparr>) = rasterizations w"
  by (simp add: rasterizations_def)

lemma rasterizations_try_unlink: "rasterizations (try_unlink p w) = rasterizations w"
  by (cases "files w p")
     (auto simp: try_unlink_present try_unlink_absent rasterizations_emit
        rasterizations_files_update)

lemma part000_messages_world:
  assumes "part000_messages e file prompt w = (r, t, w')" and "files w (path file) = Some b"
  shows "deletions q w' = deletions q w
         \<and> (case t of
               None \<Rightarrow> files w' = files w \<and> rasterizations w' = rasterizations w
             | Some tp \<Rightarrow> tp @ ''-1.png'' = png_path e \<and> tp \<noteq> []
                 \<and> rasterizations w' = rasterizations w + 1
                 \<and> files w' = (case fst (pdfToPng e b) of
                                 None \<Rightarrow> files w
                               | Some img \<Rightarrow> (files w)(png_path e \<mapsto> img)))"
  using assms
  by (auto simp: part000_messages_def png_path_def Let_def readFile_def
        files_emit deletions_emit deletions_files_update
        rasterizations_emit rasterizations_files_update
        split: prod.splits sum.splits option.splits if_splits)

lemma part000_try_world:
  assumes "part000_try e req w = (r, t, w')" and "req_file req = Some file"
    and "files w (path file) = Some b"
  shows "deletions q w' = deletions q w
         \<and> (case t of
               None \<Rightarrow> files w' = files w \<and> rasterizations w' = rasterizations w
             | Some tp \<Rightarrow> tp @ ''-1.png'' = png_path e \<and> tp \<noteq> []
                 \<and> rasterizations w' = rasterizations w + 1
                 \<and> files w' = (case fst (pdfToPng e b) of
                                 None \<Rightarrow> files w
                               | Some img \<Rightarrow> (files w)(png_path e \<mapsto> img)))"
proof (cases "truthy (req_prompt req)")
  case False
  then have "r = Inl (newError ''No prompt provided.'') \<and> t = None \<and> w' = w"
    using assms(1,2) by (auto simp: part000_try_def truthy_def split: option.splits if_splits)
  then show ?thesis by simp
next
  case True
  then obtain prompt where p: "req_prompt req = Some prompt" "prompt \<noteq> []"
    by (auto simp: truthy_def split: option.splits)
  obtain r1 t1 w1 where m: "part000_messages e file prompt w = (r1, t1, w1)"
    by (cases "part000_messages e file prompt w") auto
  have w1: "deletions q w1 = deletions q w
         \<and> (case t1 of
               None \<Rightarrow> files w1 = files w \<and> rasterizations w1 = rasterizations w
             | Some tp \<Rightarrow> tp @ ''-1.png'' = png_path e \<and> tp \<noteq> []
                 \<and> rasterizations w1 = rasterizations w + 1
                 \<and> files w1 = (case fst (pdfToPng e b) of
                                 None \<Rightarrow> files w
                               | Some img \<Rightarrow> (files w)(png_path e \<mapsto> img)))"
    by (rule part000_messages_world [OF m assms(3)])
  show ?thesis
  proof (cases r1)
    case (Inl err)
    then have "t = t1 \<and> w' = w1"
      using assms(1,2) p m by (simp add: part000_try_def)
    then show ?thesis using w1 by auto
  next
    case (Inr msgs)
    obtain r2 w2 where c: "scout_complete e msgs w1 = (r2, w2)"
      by (cases "scout_complete e msgs w1") auto
    have "t = t1 \<and> w' = w2"
      using assms(1,2) p m Inr c by (simp add: part000_try_def)
    moreover have "w2 = emit [Completion (scout_requestBody msgs)] w1"
      by (rule scout_complete_world [OF c])
    ultimately show ?thesis
      using w1 by (auto simp: files_emit deletions_emit rasterizations_emit split: option.splits)
  qed
qed

lemma part000_cleanup:
  assumes "in_file inc = Some f" and "image_or_pdf_filter f = None"
    and "fsize f \<le> part000_fileSize"
  shows "files (snd (part000_endpoint e inc w)) (stored_path e f) = None
         \<and> deletions (stored_path e f) (snd (part000_endpoint e inc w))
             = deletions (stored_path e f) w + 1
         \<and> (rasterizations (snd (part000_endpoint e inc w)) = rasterizations w
            \<or> rasterizations (snd (part000_endpoint e inc w)) = rasterizations w + 1
              \<and> files (snd (part000_endpoint e inc w)) (png_path e) = None
              \<and> deletions (png_path e) (snd (part000_endpoint e inc w))
                   \<le> deletions (png_path e) w + 1
              \<and> (fst (pdfToPng e (bytes f)) \<noteq> None \<longrightarrow>
                   deletions (png_path e) (snd (part000_endpoint e inc w))
                     = deletions (png_path e) w + 1))"
proof -
  let ?p = "stored_path e f"
  let ?w1 = "w\<lparr>files := (files w)(?p \<mapsto> bytes f)\<rparr>"
  let ?file = "upload_file.extend f (stored_file.fields ?p)"
  let ?req = "\<lparr>req_file = Some ?file, req_prompt = in_prompt inc\<rparr>"
  have up: "upload_single image_or_pdf_filter part000_fileSize e inc w = (Inr ?req, ?w1)"
    using assms by (simp add: upload_single_def)
  obtain r t w2 where tr: "part000_try e ?req ?w1 = (r, t, w2)"
    by (cases "part000_try e ?req ?w1") auto
  have fin: "snd (part000_endpoint e inc w)
      = if_path t (\<lambda>t. try_unlink (t @ ''-1.png'')) (try_unlink ?p w2)"
    by (cases t)
       (simp_all add: part000_endpoint_def up part000_handler_def tr stored_file_path
          if_path_def stored_path_nonempty Let_def)
  have f1: "files ?w1 (path ?file) = Some (bytes f)"
    by (simp add: stored_file_path)
  have w2: "deletions q w2 = deletions q ?w1
         \<and> (case t of
               None \<Rightarrow> files w2 = files ?w1 \<and> rasterizations w2 = rasterizations ?w1
             | Some tp \<Rightarrow> tp @ ''-1.png'' = png_path e \<and> tp \<noteq> []
                 \<and> rasterizations w2 = rasterizations ?w1 + 1
                 \<and> files w2 = (case fst (pdfToPng e (bytes f)) of
                                 None \<Rightarrow> files ?w1
                               | Some img \<Rightarrow> (files ?w1)(png_path e \<mapsto> img)))" for q
    by (rule part000_try_world [OF tr _ f1]) simp
  show ?thesis
  proof (cases t)
    case None
    then show ?thesis
      using w2 [of ?p]
      by (simp add: fin if_path_def files_try_unlink deletions_try_unlink
            deletions_files_update rasterizations_try_unlink rasterizations_files_update)
  next
    case (Some tp)
    then show ?thesis
      using w2 [of ?p] w2 [of "png_path e"]
      by (auto simp: fin if_path_def files_try_unlink deletions_try_unlink
            deletions_files_update rasterizations_try_unlink rasterizations_files_update
            split: option.splits)
  qed
qed

section \<open>Counting the calls of unlink\<close>

lemma unlink_calls_emit:
  "unlink_calls p (emit evs w) = unlink_calls p w + length (filter (is_unlink p) evs)"
  by (simp add: unlink_calls_def emit_def)

lemma unlink_calls_files_update: "unlink_calls p (w\<lparr>files := fs\<rparr>) = unlink_calls p w"
  by (simp add: unlink_calls_def)

lemma unlink_calls_try_unlink:
  "unlink_calls q (try_unlink p w) = unlink_calls q w + (if q = p then 1 else 0)"
  by (cases "files w p")
     (auto simp: try_unlink_present try_unlink_absent unlink_calls_emit
        unlink_calls_files_update is_unlink_def)

lemma is_unlink_polls: "filter (is_unlink p) (polls j m) = []"
  by (induction m) (simp_all add: polls_def is_unlink_def)

lemma digit_in_digits: "d < 10 \<Longrightarrow> digit d \<in> set ''0123456789''"
proof -
  assume "d < 10"
  then have "d < length ''0123456789''" by simp
  then have "''0123456789'' ! d \<in> set ''0123456789''" by (rule nth_mem)
  then show ?thesis by (simp only: digit_def)
qed

lemma decimal_digits: "set (decimal k) \<subseteq> set ''0123456789''"
proof (induction k rule: decimal.induct)
  case (1 n)
  show ?case
  proof (cases "n < 10")
    case True
    then show ?thesis
      using digit_in_digits [of n] by (subst decimal.simps) simp
  next
    case False
    have "n mod 10 < 10" by simp
    then have "digit (n mod 10) \<in> set ''0123456789''" by (rule digit_in_digits)
    moreover have "set (decimal (n div 10)) \<subseteq> set ''0123456789''"
      using False by (rule "1.IH")
    ultimately show ?thesis
      using False by (subst decimal.simps) simp
  qed
qed

lemma decimal_nonempty: "decimal n \<noteq> []"
  by (subst decimal.simps) simp

lemma hd_decimal: "hd (decimal n) \<in> set ''0123456789''"
  using decimal_digits [of n] decimal_nonempty [of n] hd_in_set [of "decimal n"] by blast

lemma last_segment:
  assumes "CHR ''/'' \<notin> set seg"
  shows "takeWhile (\<lambda>c. c \<noteq> CHR ''/'') (rev (dir @ ''/'' @ seg)) = rev seg"
proof -
  have "\<forall>c \<in> set (rev seg). c \<noteq> CHR ''/''"
    using assms by auto
  then have "takeWhile (\<lambda>c. c \<noteq> CHR ''/'') (rev seg @ (CHR ''/'' # rev dir)) = rev seg"
    by (simp add: takeWhile_tail)
  then show ?thesis by simp
qed

lemma png_path_not_stored: "png_path e \<noteq> stored_path e f"
proof
  assume eq: "png_path e = stored_path e f"
  let ?a = "''temp-'' @ decimal (now_png e) @ ''-1.png''"
  let ?b = "decimal (now e) @ ''-'' @ sanitize (originalname f)"
  have digits: "CHR ''/'' \<notin> set (decimal k)" for k
    using decimal_digits [of k] by auto
  have slash_a: "CHR ''/'' \<notin> set ?a"
    using digits [of "now_png e"] by simp
  have "CHR ''/'' \<notin> set (sanitize (originalname f))"
    by (auto simp: sanitize_def safe_char_def split: if_splits)
  then have slash_b: "CHR ''/'' \<notin> set ?b"
    using digits [of "now e"] by simp
  have "png_path e = tmpdir e @ ''/'' @ ?a"
    by (simp add: png_path_def)
  moreover have "stored_path e f = (dirname e @ ''/data/uploads'') @ ''/'' @ ?b"
    by (simp add: stored_path_def uploadsDir_def filename_def)
  ultimately have "takeWhile (\<lambda>c. c \<noteq> CHR ''/'') (rev (tmpdir e @ ''/'' @ ?a))
      = takeWhile (\<lambda>c. c \<noteq> CHR ''/'') (rev ((dirname e @ ''/data/uploads'') @ ''/'' @ ?b))"
    using eq by simp
  then have "rev ?a = rev ?b"
    using last_segment [OF slash_a, of "tmpdir e"]
      last_segment [OF slash_b, of "dirname e @ ''/data/uploads''"]
    by simp
  then have "?a = ?b" by (simp only: rev_is_rev_conv)
  then have "hd ?a = hd ?b" by simp
  then have "CHR ''t'' = hd (decimal (now e))"
    using decimal_nonempty [of "now e"] by simp
  then show False
    using hd_decimal [of "now e"] by auto
qed

lemma server_try_calls:
  assumes "server_try e req w = (r, w')" and "req_file req = Some file" and "path file \<noteq> []"
  shows "unlink_calls q w' =
           unlink_calls q w + (case r of Inl err \<Rightarrow> 0
                               | Inr response \<Rightarrow> if q = path file then 1 else 0)"
  using assms
  by (auto simp: server_try_def then_io_def uploadFileToLlamaParse_def readFile_def
        fetch_completion_def ret_def throw_def if_path_def Let_def
        unlink_calls_emit unlink_calls_try_unlink is_unlink_polls is_unlink_def
        split: option.splits sum.splits prod.splits if_splits
        dest!: pollForResult_world)

lemma server_try_status:
  "server_try e req w = (Inr response, w') \<Longrightarrow> status response = 200"
  by (auto simp: server_try_def then_io_def ret_def throw_def Let_def success_response_def
        split: option.splits sum.splits prod.splits if_splits)

lemma server_calls:
  assumes "in_file inc = Some f" and "image_or_pdf_filter f = None" and "fsize f \<le> server_fileSize"
  shows "unlink_calls (stored_path e f) (snd (server_endpoint e inc w))
           = unlink_calls (stored_path e f) w
             + (if status (fst (server_endpoint e inc w)) = 200 then 2 else 1)"
proof -
  let ?p = "stored_path e f"
  let ?w1 = "w\<lparr>files := (files w)(?p \<mapsto> bytes f)\<rparr>"
  let ?file = "upload_file.extend f (stored_file.fields ?p)"
  let ?req = "\<lparr>req_file = Some ?file, req_prompt = in_prompt inc\<rparr>"
  have up: "upload_single image_or_pdf_filter server_fileSize e inc w = (Inr ?req, ?w1)"
    using assms by (simp add: upload_single_def)
  obtain r w2 where t: "server_try e ?req ?w1 = (r, w2)"
    by (cases "server_try e ?req ?w1") auto
  have calls: "unlink_calls ?p w2 =
      unlink_calls ?p ?w1 + (case r of Inl err \<Rightarrow> 0
                             | Inr response \<Rightarrow> if ?p = path ?file then 1 else 0)"
    by (rule server_try_calls [OF t]) (simp_all add: stored_file_path stored_path_nonempty)
  show ?thesis
  proof (cases r)
    case (Inl err)
    then show ?thesis
      using t calls
      by (simp add: server_endpoint_def server_handler_def up stored_file_path if_path_def
            stored_path_nonempty unlink_calls_try_unlink unlink_calls_files_update)
  next
    case (Inr response)
    then have "status response = 200"
      using server_try_status [of e ?req ?w1 response w2] t by simp
    then show ?thesis
      using t calls Inr
      by (simp add: server_endpoint_def server_handler_def up stored_file_path if_path_def
            stored_path_nonempty unlink_calls_try_unlink unlink_calls_files_update)
  qed
qed

lemma part001_calls:
  assumes "in_file inc = Some f" and "image_filter f = None" and "fsize f \<le> part001_fileSize"
  shows "unlink_calls (stored_path e f) (snd (part001_endpoint e inc w))
           = unlink_calls (stored_path e f) w + 1"
  using assms
  by (auto simp: part001_endpoint_def upload_single_def part001_handler_def part001_try_def
        then_io_def readFile_def throw_def if_path_def stored_file_path stored_path_nonempty
        unlink_calls_emit unlink_calls_try_unlink unlink_calls_files_update is_unlink_def
        split: prod.splits sum.splits option.splits if_splits
        dest!: scout_complete_world)

lemma part002_calls:
  assumes "in_file inc = Some f" and "pdf_filter f = None" and "fsize f \<le> part002_fileSize"
  shows "unlink_calls (stored_path e f) (snd (part002_endpoint e inc w))
           = unlink_calls (stored_path e f) w + 1"
  using assms
  by (auto simp: part002_endpoint_def upload_single_def part002_handler_def part002_try_def
        part002_filePath_def existsSync_def fetch_completion_def ret_def Let_def
        then_io_def readFile_def throw_def stored_file_path stored_path_nonempty
        files_emit files_try_unlink
        unlink_calls_emit unlink_calls_try_unlink unlink_calls_files_update is_unlink_def
        split: prod.splits sum.splits option.splits if_splits)

lemma part000_messages_calls:
  "part000_messages e file prompt w = (r, t, w') \<Longrightarrow> unlink_calls q w' = unlink_calls q w"
  by (auto simp: part000_messages_def Let_def readFile_def
        unlink_calls_emit unlink_calls_files_update is_unlink_def
        split: prod.splits sum.splits option.splits if_splits)

lemma part000_try_calls:
  "part000_try e req w = (r, t, w') \<Longrightarrow> unlink_calls q w' = unlink_calls q w"
  by (auto simp: part000_try_def unlink_calls_emit is_unlink_def
        split: prod.splits sum.splits option.splits if_splits
        dest!: scout_complete_world part000_messages_calls [where q = q])

lemma part000_calls:
  assumes "in_file inc = Some f" and "image_or_pdf_filter f = None"
    and "fsize f \<le> part000_fileSize"
  shows "unlink_calls (stored_path e f) (snd (part000_endpoint e inc w))
           = unlink_calls (stored_path e f) w + 1
         \<and> (rasterizations (snd (part000_endpoint e inc w)) = rasterizations w
              \<and> unlink_calls (png_path e) (snd (part000_endpoint e inc w))
                  = unlink_calls (png_path e) w
            \<or> rasterizations (snd (part000_endpoint e inc w)) = rasterizations w + 1
              \<and> unlink_calls (png_path e) (snd (part000_endpoint e inc w))
                  = unlink_calls (png_path e) w + 1)"
proof -
  let ?p = "stored_path e f"
  let ?w1 = "w\<lparr>files := (files w)(?p \<mapsto> bytes f)\<rparr>"
  let ?file = "upload_file.extend f (stored_file.fields ?p)"
  let ?req = "\<lparr>req_file = Some ?file, req_prompt = in_prompt inc\<rparr>"
  have up: "upload_single image_or_pdf_filter part000_fileSize e inc w = (Inr ?req, ?w1)"
    using assms by (simp add: upload_single_def)
  obtain r t w2 where tr: "part000_try e ?req ?w1 = (r, t, w2)"
    by (cases "part000_try e ?req ?w1") auto
  have fin: "snd (part000_endpoint e inc w)
      = if_path t (\<lambda>t. try_unlink (t @ ''-1.png'')) (try_unlink ?p w2)"
    by (cases t)
       (simp_all add: part000_endpoint_def up part000_handler_def tr stored_file_path
          if_path_def stored_path_nonempty Let_def)
  have calls: "unlink_calls q w2 = unlink_calls q w" for q
    using part000_try_calls [OF tr, of q] by (simp add: unlink_calls_files_update)
  have f1: "files ?w1 (path ?file) = Some (bytes f)"
    by (simp add: stored_file_path)
  have w2: "case t of
               None \<Rightarrow> rasterizations w2 = rasterizations ?w1
             | Some tp \<Rightarrow> tp @ ''-1.png'' = png_path e \<and> tp \<noteq> []
                 \<and> rasterizations w2 = rasterizations ?w1 + 1"
    using part000_try_world [OF tr _ f1, of ?p] by (auto split: option.splits)
  have ne: "png_path e \<noteq> ?p" "?p \<noteq> png_path e"
    using png_path_not_stored [of e f] by auto
  show ?thesis
  proof (cases t)
    case None
    then show ?thesis
      using w2 calls ne
      by (simp add: fin if_path_def unlink_calls_try_unlink rasterizations_try_unlink
            rasterizations_files_update)
  next
    case (Some tp)
    then show ?thesis
      using w2 calls ne
      by (simp add: fin if_path_def unlink_calls_try_unlink rasterizations_try_unlink
            rasterizations_files_update)
  qed
qed

section \<open>Calls to the hosted services\<close>

lemma trace_try_unlink: "trace (try_unlink p w) = trace w @ [Unlink p (files w p \<noteq> None)]"
  by (cases "files w p") (auto simp: try_unlink_present try_unlink_absent trace_emit)

lemma upstream_calls_try_unlink: "upstream_calls (try_unlink p w) = upstream_calls w"
  by (simp add: upstream_calls_def trace_try_unlink upstream_def)

lemma completion_requests_emit:
  "completion_requests (emit evs w) =
     completion_requests w @ concat (map (\<lambda>ev. case ev of Completion b \<Rightarrow> [b] | _ \<Rightarrow> []) evs)"
  by (simp add: completion_requests_def emit_def)

lemma completion_requests_files_update:
  "completion_requests (w\<lparr>files := fs\<rparr>) = completion_requests w"
  by (simp add: completion_requests_def)

lemma completion_requests_try_unlink:
  "completion_requests (try_unlink p w) = completion_requests w"
  by (simp add: completion_requests_def trace_try_unlink)

lemma completion_requests_if_path:
  "completion_requests (if_path fp try_unlink w) = completion_requests w"
  by (simp add: if_path_def completion_requests_try_unlink split: option.splits)

lemma completions_polls:
  "concat (map (\<lambda>ev. case ev of Completion b \<Rightarrow> [b] | _ \<Rightarrow> []) (polls j m)) = []"
  by (induction m) (simp_all add: polls_def)

lemma server_try_completions:
  assumes "server_try e req w = (r, w')"
  shows "completion_requests w' = completion_requests w
         \<or> (\<exists>prompt parsed. prompt \<noteq> [] \<and> parsed \<noteq> []
               \<and> completion_requests w'
                   = completion_requests w @ [server_requestBody prompt parsed])"
  using assms
  by (auto simp: server_try_def then_io_def uploadFileToLlamaParse_def readFile_def
        fetch_completion_def ret_def throw_def Let_def
        completion_requests_emit completion_requests_if_path completions_polls
        split: option.splits sum.splits prod.splits if_splits
        dest!: pollForResult_world)
     blast+

lemma server_endpoint_completions:
  "completion_requests (snd (server_endpoint e inc w)) = completion_requests w
   \<or> (\<exists>prompt parsed. prompt \<noteq> [] \<and> parsed \<noteq> []
         \<and> completion_requests (snd (server_endpoint e inc w))
             = completion_requests w @ [server_requestBody prompt parsed])"
proof (cases "upload_single image_or_pdf_filter server_fileSize e inc w")
  case (Pair r w1)
  have w1: "completion_requests w1 = completion_requests w"
    using Pair
    by (auto simp: upload_single_def completion_requests_files_update
          split: option.splits if_splits)
  show ?thesis
  proof (cases r)
    case (Inl err)
    then show ?thesis using Pair w1 by (simp add: server_endpoint_def)
  next
    case (Inr req)
    obtain r2 w2 where t: "server_try e req w1 = (r2, w2)"
      by (cases "server_try e req w1") auto
    have "completion_requests (snd (server_endpoint e inc w)) = completion_requests w2"
      using Pair Inr t
      by (cases r2)
         (simp_all add: server_endpoint_def server_handler_def completion_requests_if_path)
    then show ?thesis
      using server_try_completions [OF t] w1 by auto
  qed
qed

lemma part000_messages_completions:
  "part000_messages e file prompt w = (r, t, w') \<Longrightarrow>
   completion_requests w' = completion_requests w"
  by (auto simp: part000_messages_def Let_def readFile_def
        completion_requests_emit completion_requests_files_update
        split: prod.splits sum.splits option.splits if_splits)

lemma part000_try_completions:
  assumes "part000_try e req w = (r, t, w')"
  shows "completion_requests w' = completion_requests w
         \<or> (\<exists>msgs. completion_requests w' = completion_requests w @ [scout_requestBody msgs])"
  using assms
  by (auto simp: part000_try_def completion_requests_emit
        split: prod.splits sum.splits option.splits if_splits
        dest!: scout_complete_world part000_messages_completions)

lemma part000_endpoint_completions:
  "completion_requests (snd (part000_endpoint e inc w)) = completion_requests w
   \<or> (\<exists>msgs. completion_requests (snd (part000_endpoint e inc w))
         = completion_requests w @ [scout_requestBody msgs])"
proof (cases "upload_single image_or_pdf_filter part000_fileSize e inc w")
  case (Pair r w1)
  have w1: "completion_requests w1 = completion_requests w"
    using Pair
    by (auto simp: upload_single_def completion_requests_files_update
          split: option.splits if_splits)
  show ?thesis
  proof (cases r)
    case (Inl err)
    then show ?thesis using Pair w1 by (simp add: part000_endpoint_def)
  next
    case (Inr req)
    obtain r2 t w2 where t: "part000_try e req w1 = (r2, t, w2)"
      by (cases "part000_try e req w1") auto
    have "completion_requests (snd (part000_endpoint e inc w)) = completion_requests w2"
      using Pair Inr t
      by (cases t)
         (simp_all add: part000_endpoint_def part000_handler_def if_path_def Let_def
            completion_requests_try_unlink split: option.splits)
    then show ?thesis
      using part000_try_completions [OF t] w1 by auto
  qed
qed


lemma part001_try_completions:
  assumes "part001_try e req w = (r, w')"
  shows "completion_requests w' = completion_requests w
         \<or> (\<exists>file b. req_file req = Some file \<and> files w (path file) = Some b
               \<and> completion_requests w' = completion_requests w @ [part001_payload e file b])"
  using assms
  by (auto simp: part001_try_def part001_payload_def then_io_def readFile_def throw_def
        completion_requests_emit
        split: prod.splits sum.splits option.splits if_splits
        dest!: scout_complete_world)

lemma part001_endpoint_completions:
  "completion_requests (snd (part001_endpoint e inc w)) = completion_requests w
   \<or> (\<exists>f. in_file inc = Some f
         \<and> completion_requests (snd (part001_endpoint e inc w))
             = completion_requests w
               @ [part001_payload e (upload_file.extend f (stored_file.fields (stored_path e f)))
                    (bytes f)])"
proof (cases "upload_single image_filter part001_fileSize e inc w")
  case (Pair r w1)
  show ?thesis
  proof (cases r)
    case (Inl err)
    then have "w1 = w"
      using Pair by (auto simp: upload_single_def split: option.splits if_splits)
    then show ?thesis using Pair Inl by (simp add: part001_endpoint_def)
  next
    case (Inr req)
    have w1: "completion_requests w1 = completion_requests w"
      using Pair
      by (auto simp: upload_single_def completion_requests_files_update
            split: option.splits if_splits)
    obtain r2 w2 where t: "part001_try e req w1 = (r2, w2)"
      by (cases "part001_try e req w1") auto
    have fin: "completion_requests (snd (part001_endpoint e inc w)) = completion_requests w2"
      using Pair Inr t
      by (simp add: part001_endpoint_def part001_handler_def completion_requests_if_path)
    from part001_try_completions [OF t] show ?thesis
    proof
      assume "completion_requests w2 = completion_requests w1"
      then show ?thesis using fin w1 by simp
    next
      assume "\<exists>file b. req_file req = Some file \<and> files w1 (path file) = Some b
               \<and> completion_requests w2 = completion_requests w1 @ [part001_payload e file b]"
      then obtain sf b where fb: "req_file req = Some sf" "files w1 (path sf) = Some b"
        "completion_requests w2 = completion_requests w1 @ [part001_payload e sf b]"
        by blast
      obtain f where f: "in_file inc = Some f"
        "sf = upload_file.extend f (stored_file.fields (stored_path e f))"
        "w1 = w\<lparr>files := (files w)(stored_path e f \<mapsto> bytes f)\<rparr>"
        using Pair Inr fb(1)
        by (auto simp: upload_single_def split: option.splits if_splits)
      have "b = bytes f"
        using fb(2) f by (simp add: stored_file_path)
      then show ?thesis
        using fin w1 fb(3) f by auto
    qed
  qed
qed

lemma part002_try_completions:
  assumes "part002_try e req w = (r, w')"
  shows "completion_requests w' = completion_requests w
         \<or> (\<exists>resumeText prompt. prompt \<noteq> []
               \<and> completion_requests w'
                   = completion_requests w @ [part002_requestBody resumeText prompt])"
  using assms
  by (auto simp: part002_try_def existsSync_def fetch_completion_def ret_def Let_def
        then_io_def readFile_def throw_def
        completion_requests_emit completion_requests_try_unlink
        split: prod.splits sum.splits option.splits if_splits)
     blast+

lemma part002_endpoint_completions:
  "completion_requests (snd (part002_endpoint e inc w)) = completion_requests w
   \<or> (\<exists>resumeText prompt. prompt \<noteq> []
         \<and> completion_requests (snd (part002_endpoint e inc w))
             = completion_requests w @ [part002_requestBody resumeText prompt])"
proof (cases "upload_single pdf_filter part002_fileSize e inc w")
  case (Pair r w1)
  have w1: "completion_requests w1 = completion_requests w"
    using Pair
    by (auto simp: upload_single_def completion_requests_files_update
          split: option.splits if_splits)
  show ?thesis
  proof (cases r)
    case (Inl err)
    then show ?thesis using Pair w1 by (simp add: part002_endpoint_def)
  next
    case (Inr req)
    obtain r2 w2 where t: "part002_try e req w1 = (r2, w2)"
      by (cases "part002_try e req w1") auto
    have "completion_requests (snd (part002_endpoint e inc w)) = completion_requests w2"
      using Pair Inr t
      by (cases r2)
         (simp_all add: part002_endpoint_def part002_handler_def completion_requests_try_unlink)
    then show ?thesis
      using part002_try_completions [OF t] w1 by auto
  qed
qed

section \<open>Sample runs\<close>

lemma decimal_42: "decimal 42 = ''42''"
  by (simp add: decimal.simps digit_def)

lemma decimal_43: "decimal 43 = ''43''"
  by (simp add: decimal.simps digit_def)

lemma demo_env_fields:
  "now demo_env = 42" "now_png demo_env = 43" "dirname demo_env = ''/app''"
  "tmpdir demo_env = ''/tmp''" "LLAMA_CLOUD_API_KEY demo_env = Some ''llx-1''"
  "GROQ_API_KEY demo_env = Some ''gsk-1''" "NODE_ENV demo_env = None"
  "upload_reply demo_env = Inr demo_uploaded" "groq_reply demo_env b = Inr demo_answer"
  "pdf_text demo_env buffer = Inr []" "poppler_new demo_env = None"
  "pdfToPng demo_env buffer = (Some ''PNG-page-1'', None)" "base64 demo_env buffer = buffer"
  by (simp_all add: demo_env_def)

lemma demo_pending_not_completed: "not_completed_yet (Inr demo_pending)"
  by (simp add: not_completed_yet_def demo_pending_def no_json_def)

lemma demo_poll:
  "pollForResult demo_env j w = (Inr (Some ''# Invoice 7''), emit (polls j 3) w)"
proof -
  have "pollForResult demo_env j w = pollLoop demo_env j 2 (emit (polls j 2) w)"
    by (rule pollForResult_after)
       (simp_all add: maxAttempts_def demo_env_def demo_pending_not_completed)
  also have "\<dots> = (Inr (Some ''# Invoice 7''), emit (polls j 3) w)"
    using pollLoop_last [of 2 demo_env demo_parsed j w]
    by (simp add: maxAttempts_def demo_env_def demo_parsed_def ok_def no_json_def
          eval_nat_numeral)
  finally show ?thesis .
qed

lemma server_demo_run:
  "server_endpoint demo_env (with_prompt demo_pdf) demo_world =
     (success_response ''Total due: 40'',
      \<lparr>files = [default_pdf demo_env \<mapsto> ''%PDF-default''],
       trace = [ReadFile ''/app/data/uploads/42-my_report.pdf'',
                ParserUpload ''my report.pdf'' ''%PDF-'']
               @ polls (Some ''job-1'') 3
               @ [Completion (server_requestBody ''Summarise'' ''# Invoice 7''),
                  Unlink ''/app/data/uploads/42-my_report.pdf'' True,
                  Unlink ''/app/data/uploads/42-my_report.pdf'' False]\<rparr>)"
  by (simp add: server_endpoint_def upload_single_def with_prompt_def demo_pdf_def
        image_or_pdf_filter_def startsWith_def server_fileSize_def stored_path_def
        uploadsDir_def filename_def sanitize_def safe_char_def decimal_42
        server_handler_def server_try_def trim_def js_space_def truthy_def
        then_io_def uploadFileToLlamaParse_def readFile_def demo_poll
        fetch_completion_def ok_def or_else_def ret_def throw_def if_path_def
        try_unlink_def unlink_def emit_def demo_world_def default_pdf_def
        upload_file.extend_def stored_file.fields_def
        demo_env_fields demo_uploaded_def demo_answer_def no_json_def)

lemma demo_env_resume_fields:
  "now demo_env_resume = 42" "dirname demo_env_resume = ''/app''"
  "NODE_ENV demo_env_resume = None" "groq_reply demo_env_resume b = Inr demo_answer"
  "pdf_text demo_env_resume buffer = Inr ''Jane Doe, engineer''"
  by (simp_all add: demo_env_resume_def demo_env_def)

lemma part000_demo_run:
  "part000_endpoint demo_env (with_prompt demo_pdf) demo_world =
     (success_response ''Total due: 40'',
      \<lparr>files = [default_pdf demo_env \<mapsto> ''%PDF-default''],
       trace = [ReadFile ''/app/data/uploads/42-my_report.pdf'',
                PdfToPng ''/app/data/uploads/42-my_report.pdf'' ''/tmp/temp-43-1.png'',
                ReadFile ''/tmp/temp-43-1.png'',
                Completion (scout_requestBody
                  (image_messages ''Summarise'' ''data:image/png;base64,PNG-page-1'')),
                Unlink ''/app/data/uploads/42-my_report.pdf'' True,
                Unlink ''/tmp/temp-43-1.png'' True]\<rparr>)"
  by (simp add: part000_endpoint_def upload_single_def with_prompt_def demo_pdf_def
        image_or_pdf_filter_def startsWith_def part000_fileSize_def stored_path_def
        uploadsDir_def filename_def sanitize_def safe_char_def decimal_42 decimal_43
        part000_handler_def part000_try_def part000_messages_def scout_complete_def
        trim_def then_io_def readFile_def fetch_completion_def ok_def ret_def throw_def
        if_path_def try_unlink_def unlink_def emit_def demo_world_def default_pdf_def
        upload_file.extend_def stored_file.fields_def Let_def
        demo_env_fields demo_answer_def no_json_def)

lemma part001_demo_run:
  "part001_endpoint demo_env (with_prompt demo_png) demo_world =
     (success_response ''Total due: 40'',
      \<lparr>files = [default_pdf demo_env \<mapsto> ''%PDF-default''],
       trace = [ReadFile ''/app/data/uploads/42-scan_1.png'',
                Completion (scout_requestBody
                  (image_messages builtin_prompt ''data:image/png;base64,PNG1'')),
                Unlink ''/app/data/uploads/42-scan_1.png'' True]\<rparr>)"
  by (simp add: part001_endpoint_def upload_single_def with_prompt_def demo_png_def
        image_filter_def startsWith_def part001_fileSize_def stored_path_def
        uploadsDir_def filename_def sanitize_def safe_char_def decimal_42
        part001_handler_def part001_try_def scout_complete_def
        then_io_def readFile_def fetch_completion_def ok_def ret_def throw_def
        if_path_def try_unlink_def unlink_def emit_def demo_world_def default_pdf_def
        upload_file.extend_def stored_file.fields_def Let_def
        demo_env_fields demo_answer_def no_json_def)

lemma part002_demo_run:
  "part002_endpoint demo_env_resume (with_prompt demo_pdf) demo_world =
     (success_response ''Total due: 40'',
      \<lparr>files = [default_pdf demo_env \<mapsto> ''%PDF-default''],
       trace = [ReadFile ''/app/data/uploads/42-my_report.pdf'',
                Unlink ''/app/data/uploads/42-my_report.pdf'' True,
                Completion (part002_requestBody ''Jane Doe, engineer'' ''Summarise'')]\<rparr>)"
  by (simp add: part002_endpoint_def upload_single_def with_prompt_def demo_pdf_def
        pdf_filter_def part002_fileSize_def stored_path_def
        uploadsDir_def filename_def sanitize_def safe_char_def decimal_42
        part002_handler_def part002_try_def part002_filePath_def existsSync_def
        then_io_def readFile_def fetch_completion_def ok_def ret_def throw_def
        try_unlink_def unlink_def emit_def demo_world_def default_pdf_def
        upload_file.extend_def stored_file.fields_def Let_def
        demo_env_fields demo_env_resume_fields demo_answer_def no_json_def)

lemma part002_default_run:
  "part002_endpoint demo_env_resume without_file demo_world =
     (success_response ''Total due: 40'',
      \<lparr>files = [default_pdf demo_env \<mapsto> ''%PDF-default''],
       trace = [ReadFile ''/app/node_modules/pdf-parse/test/data/05-versions-space.pdf'',
                Completion (part002_requestBody ''Jane Doe, engineer'' ''Summarise'')]\<rparr>)"
  by (simp add: part002_endpoint_def upload_single_def without_file_def
        part002_handler_def part002_try_def part002_filePath_def existsSync_def
        then_io_def readFile_def fetch_completion_def ok_def ret_def throw_def
        emit_def demo_world_def default_pdf_def Let_def
        demo_env_fields demo_env_resume_fields demo_answer_def no_json_def)

section \<open>The claims on responses, requests and names\<close>

text \<open>
  C3, as stated, fails in part_002: without a \<^verbatim>\<open>file\<close> field that variant takes the
  bundled test PDF, calls the completion service and answers with a success.
\<close>

theorem no_file_counterexample:
  "in_file without_file = None
   \<and> fst (part002_endpoint demo_env_resume without_file demo_world)
       = success_response ''Total due: 40''
   \<and> upstream_calls (snd (part002_endpoint demo_env_resume without_file demo_world))
       = [Completion (part002_requestBody ''Jane Doe, engineer'' ''Summarise'')]"
  by (simp add: part002_default_run upstream_calls_def upstream_def)
     (simp add: without_file_def)

text \<open>
  C3, amended. For a request with no \<^verbatim>\<open>file\<close> field: server.js answers HTTP 500 with
  \<^verbatim>\<open>{success:false, error:"No file uploaded."}\<close>; part_000 and part_001 answer HTTP 500
  with \<^verbatim>\<open>{error:"No file uploaded."}\<close>; in all three the world is left as it was, so no
  upstream call is made. part_002 falls back to the bundled test PDF: if that file is
  absent it answers through its error handler with "File not found: ..." and makes no
  call; if it is there and parses, one completion request built from its text is sent.
\<close>

theorem no_file_responses:
  "in_file inc = None \<longrightarrow>
     server_endpoint e inc w =
       (\<lparr>status = 500, body = [(''success'', JBool False), (''error'', JStr ''No file uploaded.'')]\<rparr>, w)
     \<and> part000_endpoint e inc w =
         (\<lparr>status = 500, body = [(''error'', JStr ''No file uploaded.'')]\<rparr>, w)
     \<and> part001_endpoint e inc w =
         (\<lparr>status = 500, body = [(''error'', JStr ''No file uploaded.'')]\<rparr>, w)
     \<and> (files w (default_pdf e) = None \<longrightarrow>
           part002_endpoint e inc w =
             (part002_errorHandler e (newError (''File not found: '' @ default_pdf e)), w))
     \<and> (\<forall>b t. files w (default_pdf e) = Some b \<and> pdf_text e b = Inr t \<longrightarrow>
           sent_by (part002_endpoint e inc) w =
             [part002_requestBody t
                (case in_prompt inc of None \<Rightarrow> ''No prompt provided''
                 | Some p \<Rightarrow> if p = [] then ''No prompt provided'' else p)])"
proof (intro impI conjI allI)
  assume h: "in_file inc = None"
  show "server_endpoint e inc w =
       (\<lparr>status = 500, body = [(''success'', JBool False), (''error'', JStr ''No file uploaded.'')]\<rparr>, w)"
    using h
    by (simp add: server_endpoint_def upload_single_def server_handler_def server_try_def
          throw_def newError_def if_path_def Let_def)
  show "part000_endpoint e inc w =
         (\<lparr>status = 500, body = [(''error'', JStr ''No file uploaded.'')]\<rparr>, w)"
    using h
    by (simp add: part000_endpoint_def upload_single_def part000_handler_def part000_try_def
          part000_errorHandler_def newError_def if_path_def Let_def)
  show "part001_endpoint e inc w =
         (\<lparr>status = 500, body = [(''error'', JStr ''No file uploaded.'')]\<rparr>, w)"
    using h
    by (simp add: part001_endpoint_def upload_single_def part001_handler_def part001_try_def
          part000_errorHandler_def throw_def newError_def if_path_def Let_def)
  show "part002_endpoint e inc w =
             (part002_errorHandler e (newError (''File not found: '' @ default_pdf e)), w)"
    if "files w (default_pdf e) = None"
    using h that
    by (simp add: part002_endpoint_def upload_single_def part002_handler_def part002_try_def
          part002_filePath_def existsSync_def throw_def Let_def)
  show "sent_by (part002_endpoint e inc) w =
             [part002_requestBody t
                (case in_prompt inc of None \<Rightarrow> ''No prompt provided''
                 | Some p \<Rightarrow> if p = [] then ''No prompt provided'' else p)]"
    if "files w (default_pdf e) = Some b \<and> pdf_text e b = Inr t" for b t
    using h that
    by (auto simp: sent_by_def part002_endpoint_def upload_single_def part002_handler_def
          part002_try_def part002_filePath_def existsSync_def then_io_def readFile_def
          fetch_completion_def ret_def throw_def Let_def completion_requests_emit
          split: sum.splits option.splits)
qed

theorem no_file_responses_witness:
  "server_endpoint demo_env_resume without_file demo_world =
     (\<lparr>status = 500, body = [(''success'', JBool False), (''error'', JStr ''No file uploaded.'')]\<rparr>,
      demo_world)
   \<and> part000_endpoint demo_env_resume without_file demo_world =
       (\<lparr>status = 500, body = [(''error'', JStr ''No file uploaded.'')]\<rparr>, demo_world)
   \<and> part001_endpoint demo_env_resume without_file demo_world =
       (\<lparr>status = 500, body = [(''error'', JStr ''No file uploaded.'')]\<rparr>, demo_world)
   \<and> sent_by (part002_endpoint demo_env_resume without_file) demo_world =
       [part002_requestBody ''Jane Doe, engineer'' ''Summarise'']"
proof -
  have "in_file without_file = None"
    by (simp add: without_file_def)
  moreover have "files demo_world (default_pdf demo_env_resume) = Some ''%PDF-default''
      \<and> pdf_text demo_env_resume ''%PDF-default'' = Inr ''Jane Doe, engineer''"
    by (simp add: demo_world_def default_pdf_def demo_env_resume_fields demo_env_fields)
  ultimately show ?thesis
    using no_file_responses [of without_file demo_env_resume demo_world]
    by (simp add: without_file_def)
qed

lemma upstream_calls_if_path:
  "upstream_calls (if_path fp try_unlink w) = upstream_calls w"
  by (simp add: if_path_def upstream_calls_try_unlink split: option.splits)

lemma upload_single_upstream:
  "upload_single flt cap e inc w = (r, w1) \<Longrightarrow> upstream_calls w1 = upstream_calls w"
  by (auto simp: upload_single_def upstream_calls_files_update split: option.splits if_splits)

lemma upload_single_prompt:
  "upload_single flt cap e inc w = (Inr req, w1) \<Longrightarrow> req_prompt req = in_prompt inc"
  by (auto simp: upload_single_def split: option.splits if_splits)

lemma server_handler_no_prompt:
  assumes "\<not> truthy (map_option trim (req_prompt req))"
  shows "fst (server_handler e req w) =
           \<lparr>status = 500,
            body = [(''success'', JBool False),
                    (''error'', JStr (if req_file req = None then ''No file uploaded.''
                                      else ''No prompt provided.''))]\<rparr>"
    and "upstream_calls (snd (server_handler e req w)) = upstream_calls w"
  using assms
  by (auto simp: server_handler_def server_try_def throw_def newError_def truthy_def Let_def
        upstream_calls_if_path split: option.splits)

lemma part000_handler_no_prompt:
  assumes "\<not> truthy (req_prompt req)"
  shows "fst (part000_handler e req w) =
           \<lparr>status = 500,
            body = [(''error'', JStr (if req_file req = None then ''No file uploaded.''
                                      else ''No prompt provided.''))]\<rparr>"
    and "upstream_calls (snd (part000_handler e req w)) = upstream_calls w"
  using assms
  by (auto simp: part000_handler_def part000_try_def part000_errorHandler_def newError_def
        truthy_def Let_def if_path_def upstream_calls_try_unlink split: option.splits)

text \<open>
  C4. In the two variants that require a prompt (server.js and part_000), a request
  whose prompt is missing (or empty; in server.js also blank) is answered by the handler
  with HTTP 500 and the message "No prompt provided." ("No file uploaded." when the file
  is missing too), and the whole run makes no call to the hosted parser or to the
  completion service.
\<close>

theorem missing_prompt_rejected_before_upstream:
  "(\<not> truthy (map_option trim (req_prompt req)) \<longrightarrow>
      fst (server_handler e req w) =
        \<lparr>status = 500,
         body = [(''success'', JBool False),
                 (''error'', JStr (if req_file req = None then ''No file uploaded.''
                                   else ''No prompt provided.''))]\<rparr>
      \<and> upstream_calls (snd (server_handler e req w)) = upstream_calls w)
   \<and> (\<not> truthy (req_prompt req) \<longrightarrow>
      fst (part000_handler e req w) =
        \<lparr>status = 500,
         body = [(''error'', JStr (if req_file req = None then ''No file uploaded.''
                                   else ''No prompt provided.''))]\<rparr>
      \<and> upstream_calls (snd (part000_handler e req w)) = upstream_calls w)
   \<and> (in_prompt inc = None \<longrightarrow>
      upstream_calls (snd (server_endpoint e inc w)) = upstream_calls w
      \<and> upstream_calls (snd (part000_endpoint e inc w)) = upstream_calls w)"
proof (intro conjI impI)
  assume "\<not> truthy (map_option trim (req_prompt req))"
  then show "fst (server_handler e req w) =
        \<lparr>status = 500,
         body = [(''success'', JBool False),
                 (''error'', JStr (if req_file req = None then ''No file uploaded.''
                                   else ''No prompt provided.''))]\<rparr>"
    and "upstream_calls (snd (server_handler e req w)) = upstream_calls w"
    by (rule server_handler_no_prompt)+
next
  assume "\<not> truthy (req_prompt req)"
  then show "fst (part000_handler e req w) =
        \<lparr>status = 500,
         body = [(''error'', JStr (if req_file req = None then ''No file uploaded.''
                                   else ''No prompt provided.''))]\<rparr>"
    and "upstream_calls (snd (part000_handler e req w)) = upstream_calls w"
    by (rule part000_handler_no_prompt)+
next
  assume h: "in_prompt inc = None"
  show "upstream_calls (snd (server_endpoint e inc w)) = upstream_calls w"
  proof (cases "upload_single image_or_pdf_filter server_fileSize e inc w")
    case (Pair r w1)
    show ?thesis
    proof (cases r)
      case (Inl err)
      then show ?thesis
        using Pair upload_single_upstream [OF Pair] by (simp add: server_endpoint_def)
    next
      case (Inr rq)
      then have "\<not> truthy (map_option trim (req_prompt rq))"
        using Pair h upload_single_prompt [of _ _ e inc w rq w1] by (simp add: truthy_def)
      then show ?thesis
        using Pair Inr upload_single_upstream [OF Pair] server_handler_no_prompt(2) [of rq e w1]
        by (simp add: server_endpoint_def)
    qed
  qed
  show "upstream_calls (snd (part000_endpoint e inc w)) = upstream_calls w"
  proof (cases "upload_single image_or_pdf_filter part000_fileSize e inc w")
    case (Pair r w1)
    show ?thesis
    proof (cases r)
      case (Inl err)
      then show ?thesis
        using Pair upload_single_upstream [OF Pair] by (simp add: part000_endpoint_def)
    next
      case (Inr rq)
      then have "\<not> truthy (req_prompt rq)"
        using Pair h upload_single_prompt [of _ _ e inc w rq w1] by (simp add: truthy_def)
      then show ?thesis
        using Pair Inr upload_single_upstream [OF Pair] part000_handler_no_prompt(2) [of rq e w1]
        by (simp add: part000_endpoint_def)
    qed
  qed
qed

theorem missing_prompt_rejected_before_upstream_witness:
  "fst (server_handler demo_env \<lparr>req_file = None, req_prompt = None\<rparr> demo_world) =
     \<lparr>status = 500,
      body = [(''success'', JBool False), (''error'', JStr ''No file uploaded.'')]\<rparr>
   \<and> upstream_calls (snd (server_handler demo_env \<lparr>req_file = None, req_prompt = None\<rparr> demo_world))
       = []
   \<and> fst (part000_handler demo_env \<lparr>req_file = None, req_prompt = Some []\<rparr> demo_world) =
       \<lparr>status = 500, body = [(''error'', JStr ''No file uploaded.'')]\<rparr>
   \<and> upstream_calls (snd (server_endpoint demo_env (without_prompt demo_pdf) demo_world)) = []
   \<and> upstream_calls (snd (part000_endpoint demo_env (without_prompt demo_pdf) demo_world)) = []"
proof -
  have none: "upstream_calls demo_world = []"
    by (simp add: upstream_calls_def demo_world_def)
  have "\<not> truthy (map_option trim (req_prompt \<lparr>req_file = None, req_prompt = None\<rparr>))"
    "\<not> truthy (req_prompt \<lparr>req_file = None, req_prompt = Some []\<rparr>)"
    "in_prompt (without_prompt demo_pdf) = None"
    by (simp_all add: truthy_def without_prompt_def)
  then show ?thesis
    using missing_prompt_rejected_before_upstream
        [of "\<lparr>req_file = None, req_prompt = None\<rparr>" demo_env demo_world]
      missing_prompt_rejected_before_upstream
        [of "\<lparr>req_file = None, req_prompt = Some []\<rparr>" demo_env demo_world
            "without_prompt demo_pdf"]
    by (simp add: none)
qed

lemma sent_by_cases:
  "completion_requests (snd (run w)) = completion_requests w \<Longrightarrow> sent_by run w = []"
  "completion_requests (snd (run w)) = completion_requests w @ bs \<Longrightarrow> sent_by run w = bs"
  by (simp_all add: sent_by_def)

lemma server_sent:
  "sent_by (server_endpoint e inc) w = []
   \<or> (\<exists>prompt parsed. prompt \<noteq> [] \<and> parsed \<noteq> []
         \<and> sent_by (server_endpoint e inc) w = [server_requestBody prompt parsed])"
  using server_endpoint_completions [of e inc w] by (auto simp: sent_by_cases) blast+

lemma part000_sent:
  "sent_by (part000_endpoint e inc) w = []
   \<or> (\<exists>msgs. sent_by (part000_endpoint e inc) w = [scout_requestBody msgs])"
  using part000_endpoint_completions [of e inc w] by (auto simp: sent_by_cases)

lemma part001_sent:
  "sent_by (part001_endpoint e inc) w = []
   \<or> (\<exists>f. in_file inc = Some f
         \<and> sent_by (part001_endpoint e inc) w
             = [part001_payload e (upload_file.extend f (stored_file.fields (stored_path e f)))
                  (bytes f)])"
  using part001_endpoint_completions [of e inc w] by (auto simp: sent_by_cases)

lemma part002_sent:
  "sent_by (part002_endpoint e inc) w = []
   \<or> (\<exists>resumeText prompt. prompt \<noteq> []
         \<and> sent_by (part002_endpoint e inc) w = [part002_requestBody resumeText prompt])"
  using part002_endpoint_completions [of e inc w] by (auto simp: sent_by_cases) blast+

lemma demo_sent:
  "sent_by (server_endpoint demo_env (with_prompt demo_pdf)) demo_world
     = [server_requestBody ''Summarise'' ''# Invoice 7'']"
  "sent_by (part000_endpoint demo_env (with_prompt demo_pdf)) demo_world
     = [scout_requestBody (image_messages ''Summarise'' ''data:image/png;base64,PNG-page-1'')]"
  "sent_by (part001_endpoint demo_env (with_prompt demo_png)) demo_world
     = [scout_requestBody (image_messages builtin_prompt ''data:image/png;base64,PNG1'')]"
  "sent_by (part002_endpoint demo_env_resume (with_prompt demo_pdf)) demo_world
     = [part002_requestBody ''Jane Doe, engineer'' ''Summarise'']"
  by (simp_all add: sent_by_def server_demo_run part000_demo_run part001_demo_run
        part002_demo_run completion_requests_def completions_polls)
     (simp_all add: demo_world_def)

text \<open>
  C5, as stated, fails in part_002: its request carries temperature 0.7 and no
  \<^verbatim>\<open>max_tokens\<close> (the budget is given as \<^verbatim>\<open>max_completion_tokens\<close>).
\<close>

theorem completion_parameters_counterexample:
  "sent_by (part002_endpoint demo_env_resume (with_prompt demo_pdf)) demo_world
     = [part002_requestBody ''Jane Doe, engineer'' ''Summarise'']
   \<and> temperature (part002_requestBody ''Jane Doe, engineer'' ''Summarise'') = 7 / 10
   \<and> temperature (part002_requestBody ''Jane Doe, engineer'' ''Summarise'') \<noteq> 0
   \<and> max_tokens (part002_requestBody ''Jane Doe, engineer'' ''Summarise'') = None"
  by (simp add: demo_sent part002_requestBody_def)

text \<open>
  C5, amended. A run sends at most one completion request. In server.js it carries the
  model "llama3-70b-8192", temperature 0 and \<^verbatim>\<open>max_tokens\<close> 2048; in part_000 and
  part_001 the model "meta-llama/llama-4-scout-17b-16e-instruct", temperature 0 and
  \<^verbatim>\<open>max_tokens\<close> 1024; in part_002 the same model with temperature 0.7, no
  \<^verbatim>\<open>max_tokens\<close> and \<^verbatim>\<open>max_completion_tokens\<close> 1024.
\<close>

theorem completion_parameters:
  "length (sent_by (server_endpoint e inc) w) \<le> 1
   \<and> (\<forall>b \<in> set (sent_by (server_endpoint e inc) w).
        model b = ''llama3-70b-8192'' \<and> temperature b = 0 \<and> max_tokens b = Some 2048)
   \<and> length (sent_by (part000_endpoint e inc) w) \<le> 1
   \<and> (\<forall>b \<in> set (sent_by (part000_endpoint e inc) w).
        model b = ''meta-llama/llama-4-scout-17b-16e-instruct'' \<and> temperature b = 0
        \<and> max_tokens b = Some 1024)
   \<and> length (sent_by (part001_endpoint e inc) w) \<le> 1
   \<and> (\<forall>b \<in> set (sent_by (part001_endpoint e inc) w).
        model b = ''meta-llama/llama-4-scout-17b-16e-instruct'' \<and> temperature b = 0
        \<and> max_tokens b = Some 1024)
   \<and> length (sent_by (part002_endpoint e inc) w) \<le> 1
   \<and> (\<forall>b \<in> set (sent_by (part002_endpoint e inc) w).
        model b = ''meta-llama/llama-4-scout-17b-16e-instruct'' \<and> temperature b = 7 / 10
        \<and> max_tokens b = None \<and> max_completion_tokens b = Some 1024)"
proof (intro conjI)
  show "length (sent_by (server_endpoint e inc) w) \<le> 1"
    using server_sent [of e inc w] by auto
  show "\<forall>b \<in> set (sent_by (server_endpoint e inc) w).
        model b = ''llama3-70b-8192'' \<and> temperature b = 0 \<and> max_tokens b = Some 2048"
    using server_sent [of e inc w] by (auto simp: server_requestBody_def)
  show "length (sent_by (part000_endpoint e inc) w) \<le> 1"
    using part000_sent [of e inc w] by auto
  show "\<forall>b \<in> set (sent_by (part000_endpoint e inc) w).
        model b = ''meta-llama/llama-4-scout-17b-16e-instruct'' \<and> temperature b = 0
        \<and> max_tokens b = Some 1024"
    using part000_sent [of e inc w] by (auto simp: scout_requestBody_def)
  show "length (sent_by (part001_endpoint e inc) w) \<le> 1"
    using part001_sent [of e inc w] by auto
  show "\<forall>b \<in> set (sent_by (part001_endpoint e inc) w).
        model b = ''meta-llama/llama-4-scout-17b-16e-instruct'' \<and> temperature b = 0
        \<and> max_tokens b = Some 1024"
    using part001_sent [of e inc w] by (auto simp: part001_payload_def scout_requestBody_def)
  show "length (sent_by (part002_endpoint e inc) w) \<le> 1"
    using part002_sent [of e inc w] by auto
  show "\<forall>b \<in> set (sent_by (part002_endpoint e inc) w).
        model b = ''meta-llama/llama-4-scout-17b-16e-instruct'' \<and> temperature b = 7 / 10
        \<and> max_tokens b = None \<and> max_completion_tokens b = Some 1024"
    using part002_sent [of e inc w] by (auto simp: part002_requestBody_def)
qed

theorem completion_parameters_witness:
  "sent_by (server_endpoint demo_env (with_prompt demo_pdf)) demo_world
     = [server_requestBody ''Summarise'' ''# Invoice 7'']
   \<and> model (server_requestBody ''Summarise'' ''# Invoice 7'') = ''llama3-70b-8192''
   \<and> temperature (server_requestBody ''Summarise'' ''# Invoice 7'') = 0
   \<and> max_tokens (server_requestBody ''Summarise'' ''# Invoice 7'') = Some 2048
   \<and> sent_by (part001_endpoint demo_env (with_prompt demo_png)) demo_world
     = [scout_requestBody (image_messages builtin_prompt ''data:image/png;base64,PNG1'')]
   \<and> temperature
       (scout_requestBody (image_messages builtin_prompt ''data:image/png;base64,PNG1'')) = 0
   \<and> max_tokens
       (scout_requestBody (image_messages builtin_prompt ''data:image/png;base64,PNG1''))
       = Some 1024"
  using completion_parameters [of demo_env "with_prompt demo_pdf" demo_world]
    completion_parameters [of demo_env "with_prompt demo_png" demo_world]
  by (simp add: demo_sent)

text \<open>
  C6, as stated, fails: an upload of a MIME type outside the allow-list is rejected by
  the file filter with a plain \<^verbatim>\<open>Error\<close>, which the error handler of server.js answers
  with HTTP 500, not 400.
\<close>

theorem upload_rejection_counterexample:
  "in_file (with_prompt demo_txt) = Some demo_txt
   \<and> mimetype demo_txt = ''text/plain''
   \<and> server_endpoint demo_env (with_prompt demo_txt) demo_world =
       (\<lparr>status = 500, body = [(''error'', JStr ''Only image and PDF files are allowed.'')]\<rparr>,
        demo_world)"
  by (simp add: server_endpoint_def upload_single_def with_prompt_def demo_txt_def
        image_or_pdf_filter_def startsWith_def server_errorHandler_def newError_def)

text \<open>
  C6, amended. An upload whose MIME type is outside the variant's allow-list is rejected
  before the handler runs and before anything is stored, with a plain error that every
  variant's error handler answers with HTTP 500. An upload of an allowed type that exceeds
  the variant's size ceiling (25, 10, 5 and 5 MB) is rejected the same way with the
  \<^verbatim>\<open>MulterError\<close> "File too large", answered with HTTP 400 by server.js, part_000 and
  part_001 and with HTTP 500 by part_002.
\<close>

theorem upload_rejections:
  "in_file inc = Some f \<longrightarrow>
     (image_or_pdf_filter f \<noteq> None \<longrightarrow>
        server_endpoint e inc w =
          (\<lparr>status = 500, body = [(''error'', JStr ''Only image and PDF files are allowed.'')]\<rparr>, w)
        \<and> part000_endpoint e inc w =
          (\<lparr>status = 500, body = [(''error'', JStr ''Only image and PDF files are allowed.'')]\<rparr>, w))
     \<and> (image_filter f \<noteq> None \<longrightarrow>
        part001_endpoint e inc w =
          (\<lparr>status = 500, body = [(''error'', JStr ''Only image files are allowed.'')]\<rparr>, w))
     \<and> (pdf_filter f \<noteq> None \<longrightarrow>
        part002_endpoint e inc w =
          (part002_errorHandler e (newError ''Only PDF files are allowed!''), w)
        \<and> status (part002_errorHandler e (newError ''Only PDF files are allowed!'')) = 500)
     \<and> (image_or_pdf_filter f = None \<and> fsize f > 25 * 1024 * 1024 \<longrightarrow>
        server_endpoint e inc w =
          (\<lparr>status = 400, body = [(''error'', JStr ''File too large'')]\<rparr>, w))
     \<and> (image_or_pdf_filter f = None \<and> fsize f > 10 * 1024 * 1024 \<longrightarrow>
        part000_endpoint e inc w =
          (\<lparr>status = 400, body = [(''error'', JStr ''File upload error: File too large'')]\<rparr>, w))
     \<and> (image_filter f = None \<and> fsize f > 5 * 1024 * 1024 \<longrightarrow>
        part001_endpoint e inc w =
          (\<lparr>status = 400, body = [(''error'', JStr ''File upload error: File too large'')]\<rparr>, w))
     \<and> (pdf_filter f = None \<and> fsize f > 5 * 1024 * 1024 \<longrightarrow>
        part002_endpoint e inc w = (part002_errorHandler e multerFileTooLarge, w)
        \<and> status (part002_errorHandler e multerFileTooLarge) = 500)"
  by (auto simp: server_endpoint_def part000_endpoint_def part001_endpoint_def
        part002_endpoint_def upload_single_def
        image_or_pdf_filter_def image_filter_def pdf_filter_def
        server_fileSize_def part000_fileSize_def part001_fileSize_def part002_fileSize_def
        server_errorHandler_def part000_errorHandler_def part002_errorHandler_def
        newError_def multerFileTooLarge_def
        split: if_splits)

theorem upload_rejections_witness:
  "server_endpoint demo_env (with_prompt demo_txt) demo_world =
     (\<lparr>status = 500, body = [(''error'', JStr ''Only image and PDF files are allowed.'')]\<rparr>,
      demo_world)
   \<and> part001_endpoint demo_env (with_prompt demo_pdf) demo_world =
     (\<lparr>status = 500, body = [(''error'', JStr ''Only image files are allowed.'')]\<rparr>, demo_world)
   \<and> part002_endpoint demo_env (with_prompt demo_png) demo_world =
     (part002_errorHandler demo_env (newError ''Only PDF files are allowed!''), demo_world)
   \<and> server_endpoint demo_env (with_prompt demo_big_png) demo_world =
     (\<lparr>status = 400, body = [(''error'', JStr ''File too large'')]\<rparr>, demo_world)
   \<and> part000_endpoint demo_env (with_prompt demo_big_png) demo_world =
     (\<lparr>status = 400, body = [(''error'', JStr ''File upload error: File too large'')]\<rparr>,
      demo_world)
   \<and> part002_endpoint demo_env (with_prompt demo_big_pdf) demo_world =
     (part002_errorHandler demo_env multerFileTooLarge, demo_world)
   \<and> status (part002_errorHandler demo_env multerFileTooLarge) = 500"
proof -
  have rej_txt: "in_file (with_prompt demo_txt) = Some demo_txt"
    "image_or_pdf_filter demo_txt \<noteq> None"
    by (simp_all add: with_prompt_def demo_txt_def image_or_pdf_filter_def startsWith_def)
  have rej_pdf: "in_file (with_prompt demo_pdf) = Some demo_pdf" "image_filter demo_pdf \<noteq> None"
    by (simp_all add: with_prompt_def demo_pdf_def image_filter_def startsWith_def)
  have rej_png: "in_file (with_prompt demo_png) = Some demo_png" "pdf_filter demo_png \<noteq> None"
    by (simp_all add: with_prompt_def demo_png_def pdf_filter_def)
  have big_png: "in_file (with_prompt demo_big_png) = Some demo_big_png"
    "image_or_pdf_filter demo_big_png = None"
    "fsize demo_big_png > 25 * 1024 * 1024" "fsize demo_big_png > 10 * 1024 * 1024"
    by (simp_all add: with_prompt_def demo_big_png_def demo_png_def image_or_pdf_filter_def
          startsWith_def)
  have big_pdf: "in_file (with_prompt demo_big_pdf) = Some demo_big_pdf"
    "pdf_filter demo_big_pdf = None" "fsize demo_big_pdf > 5 * 1024 * 1024"
    by (simp_all add: with_prompt_def demo_big_pdf_def demo_pdf_def pdf_filter_def)
  have a: "server_endpoint demo_env (with_prompt demo_txt) demo_world =
     (\<lparr>status = 500, body = [(''error'', JStr ''Only image and PDF files are allowed.'')]\<rparr>,
      demo_world)"
    using upload_rejections [of "with_prompt demo_txt" demo_txt demo_env demo_world] rej_txt
    by simp
  have b: "part001_endpoint demo_env (with_prompt demo_pdf) demo_world =
     (\<lparr>status = 500, body = [(''error'', JStr ''Only image files are allowed.'')]\<rparr>, demo_world)"
    using upload_rejections [of "with_prompt demo_pdf" demo_pdf demo_env demo_world] rej_pdf
    by simp
  have c: "part002_endpoint demo_env (with_prompt demo_png) demo_world =
     (part002_errorHandler demo_env (newError ''Only PDF files are allowed!''), demo_world)"
    using upload_rejections [of "with_prompt demo_png" demo_png demo_env demo_world] rej_png
    by simp
  have d: "server_endpoint demo_env (with_prompt demo_big_png) demo_world =
     (\<lparr>status = 400, body = [(''error'', JStr ''File too large'')]\<rparr>, demo_world)"
    "part000_endpoint demo_env (with_prompt demo_big_png) demo_world =
     (\<lparr>status = 400, body = [(''error'', JStr ''File upload error: File too large'')]\<rparr>,
      demo_world)"
    using upload_rejections [of "with_prompt demo_big_png" demo_big_png demo_env demo_world]
      big_png
    by simp_all
  have e: "part002_endpoint demo_env (with_prompt demo_big_pdf) demo_world =
     (part002_errorHandler demo_env multerFileTooLarge, demo_world)"
    "status (part002_errorHandler demo_env multerFileTooLarge) = 500"
    using upload_rejections [of "with_prompt demo_big_pdf" demo_big_pdf demo_env demo_world]
      big_pdf
    by simp_all
  show ?thesis
    using a b c d e by simp
qed

section \<open>Shape of the responses\<close>

lemma server_try_result:
  "server_try e req w = (Inr r, w') \<Longrightarrow> \<exists>out. out \<noteq> [] \<and> r = success_response out"
  by (auto simp: server_try_def then_io_def ret_def throw_def Let_def
        split: option.splits sum.splits prod.splits if_splits)

lemma scout_complete_result:
  "scout_complete e msgs w = (Inr r, w') \<Longrightarrow> \<exists>out. out \<noteq> [] \<and> r = success_response out"
  by (auto simp: scout_complete_def then_io_def ret_def throw_def
        split: option.splits sum.splits prod.splits if_splits)

lemma part000_try_result:
  "part000_try e req w = (Inr r, t, w') \<Longrightarrow> \<exists>out. out \<noteq> [] \<and> r = success_response out"
  by (auto simp: part000_try_def
        split: option.splits sum.splits prod.splits if_splits
        dest: scout_complete_result)

lemma part001_try_result:
  "part001_try e req w = (Inr r, w') \<Longrightarrow> \<exists>out. out \<noteq> [] \<and> r = success_response out"
  by (auto simp: part001_try_def then_io_def throw_def
        split: option.splits sum.splits prod.splits if_splits
        dest: scout_complete_result)

lemma part002_try_result:
  "part002_try e req w = (Inr r, w') \<Longrightarrow>
   (\<exists>out. out \<noteq> [] \<and> r = success_response out)
   \<or> (\<not> (200 \<le> status r \<and> status r \<le> 299) \<and> success_flag r = None
       \<and> error_message r = Some ''API Error'')"
  by (auto simp: part002_try_def then_io_def ret_def throw_def Let_def ok_def
        success_flag_def error_message_def fetch_completion_def
        split: option.splits sum.splits prod.splits if_splits)

lemma errorHandler_shapes:
  "status (server_errorHandler err) \<in> {400, 500}"
  "success_flag (server_errorHandler err) = None"
  "error_message (server_errorHandler err) \<noteq> None"
  "status (part000_errorHandler err) \<in> {400, 500}"
  "success_flag (part000_errorHandler err) = None"
  "error_message (part000_errorHandler err) \<noteq> None"
  "status (part002_errorHandler e err) = 500"
  "success_flag (part002_errorHandler e err) = None"
  "error_message (part002_errorHandler e err) = Some ''Something went wrong!''"
  by (simp_all add: server_errorHandler_def part000_errorHandler_def part002_errorHandler_def
        success_flag_def error_message_def split: option.splits)

lemma server_endpoint_shape:
  "(\<exists>out. out \<noteq> [] \<and> fst (server_endpoint e inc w) = success_response out)
   \<or> (status (fst (server_endpoint e inc w)) = 500
       \<and> success_flag (fst (server_endpoint e inc w)) = Some (JBool False)
       \<and> error_message (fst (server_endpoint e inc w)) \<noteq> None)
   \<or> (isl (fst (upload_single image_or_pdf_filter server_fileSize e inc w))
       \<and> status (fst (server_endpoint e inc w)) \<in> {400, 500}
       \<and> success_flag (fst (server_endpoint e inc w)) = None
       \<and> error_message (fst (server_endpoint e inc w)) \<noteq> None)"
proof (cases "upload_single image_or_pdf_filter server_fileSize e inc w")
  case (Pair r w1)
  show ?thesis
  proof (cases r)
    case (Inl err)
    then show ?thesis
      using Pair errorHandler_shapes(1-3) [of err] by (simp add: server_endpoint_def)
  next
    case (Inr req)
    obtain r2 w2 where t: "server_try e req w1 = (r2, w2)"
      by (cases "server_try e req w1") auto
    show ?thesis
    proof (cases r2)
      case (Inl err)
      then show ?thesis
        using Pair Inr t
        by (simp add: server_endpoint_def server_handler_def success_flag_def
              error_message_def)
    next
      case (Inr response)
      then obtain out where "out \<noteq> []" "response = success_response out"
        using server_try_result [of e req w1 response w2] t by auto
      then show ?thesis
        using Pair \<open>r = Inr req\<close> t Inr
        by (intro disjI1 exI [of _ out]) (simp add: server_endpoint_def server_handler_def)
    qed
  qed
qed

lemma part000_endpoint_shape:
  "(\<exists>out. out \<noteq> [] \<and> fst (part000_endpoint e inc w) = success_response out)
   \<or> (status (fst (part000_endpoint e inc w)) \<in> {400, 500}
       \<and> success_flag (fst (part000_endpoint e inc w)) = None
       \<and> error_message (fst (part000_endpoint e inc w)) \<noteq> None)"
proof (cases "upload_single image_or_pdf_filter part000_fileSize e inc w")
  case (Pair r w1)
  show ?thesis
  proof (cases r)
    case (Inl err)
    then show ?thesis
      using Pair errorHandler_shapes(4-6) [of err] by (simp add: part000_endpoint_def)
  next
    case (Inr req)
    obtain r2 t w2 where t: "part000_try e req w1 = (r2, t, w2)"
      by (cases "part000_try e req w1") auto
    show ?thesis
    proof (cases r2)
      case (Inl err)
      then show ?thesis
        using Pair Inr t errorHandler_shapes(4-6) [of err]
        by (simp add: part000_endpoint_def part000_handler_def)
    next
      case (Inr response)
      then obtain out where "out \<noteq> []" "response = success_response out"
        using part000_try_result [of e req w1 response t w2] t by auto
      then show ?thesis
        using Pair \<open>r = Inr req\<close> t Inr
        by (intro disjI1 exI [of _ out]) (simp add: part000_endpoint_def part000_handler_def)
    qed
  qed
qed

lemma part001_endpoint_shape:
  "(\<exists>out. out \<noteq> [] \<and> fst (part001_endpoint e inc w) = success_response out)
   \<or> (status (fst (part001_endpoint e inc w)) \<in> {400, 500}
       \<and> success_flag (fst (part001_endpoint e inc w)) = None
       \<and> error_message (fst (part001_endpoint e inc w)) \<noteq> None)"
proof (cases "upload_single image_filter part001_fileSize e inc w")
  case (Pair r w1)
  show ?thesis
  proof (cases r)
    case (Inl err)
    then show ?thesis
      using Pair errorHandler_shapes(4-6) [of err] by (simp add: part001_endpoint_def)
  next
    case (Inr req)
    obtain r2 w2 where t: "part001_try e req w1 = (r2, w2)"
      by (cases "part001_try e req w1") auto
    show ?thesis
    proof (cases r2)
      case (Inl err)
      then show ?thesis
        using Pair Inr t errorHandler_shapes(4-6) [of err]
        by (simp add: part001_endpoint_def part001_handler_def)
    next
      case (Inr response)
      then obtain out where "out \<noteq> []" "response = success_response out"
        using part001_try_result [of e req w1 response w2] t by auto
      then show ?thesis
        using Pair \<open>r = Inr req\<close> t Inr
        by (intro disjI1 exI [of _ out]) (simp add: part001_endpoint_def part001_handler_def)
    qed
  qed
qed

lemma part002_endpoint_shape:
  "(\<exists>out. out \<noteq> [] \<and> fst (part002_endpoint e inc w) = success_response out)
   \<or> (\<not> (200 \<le> status (fst (part002_endpoint e inc w))
           \<and> status (fst (part002_endpoint e inc w)) \<le> 299)
       \<and> success_flag (fst (part002_endpoint e inc w)) = None
       \<and> error_message (fst (part002_endpoint e inc w)) \<noteq> None)"
proof (cases "upload_single pdf_filter part002_fileSize e inc w")
  case (Pair r w1)
  show ?thesis
  proof (cases r)
    case (Inl err)
    then show ?thesis
      using Pair errorHandler_shapes(7-9) [of e err] by (simp add: part002_endpoint_def)
  next
    case (Inr req)
    obtain r2 w2 where t: "part002_try e req w1 = (r2, w2)"
      by (cases "part002_try e req w1") auto
    show ?thesis
    proof (cases r2)
      case (Inl err)
      then show ?thesis
        using Pair Inr t errorHandler_shapes(7-9) [of e err]
        by (simp add: part002_endpoint_def part002_handler_def)
    next
      case (Inr response)
      then have "(\<exists>out. out \<noteq> [] \<and> response = success_response out)
         \<or> (\<not> (200 \<le> status response \<and> status response \<le> 299)
             \<and> success_flag response = None \<and> error_message response = Some ''API Error'')"
        using part002_try_result [of e req w1 response w2] t by simp
      moreover have "fst (part002_endpoint e inc w) = response"
        using Pair \<open>r = Inr req\<close> t Inr by (simp add: part002_endpoint_def part002_handler_def)
      ultimately show ?thesis by auto
    qed
  qed
qed

text \<open>
  C7, as stated, fails on the failure half: the error handler of part_000 answers a
  request without a file with \<^verbatim>\<open>{error: "No file uploaded."}\<close>, a body with no
  \<^verbatim>\<open>success\<close> field.
\<close>

theorem response_counterexample:
  "fst (part000_endpoint demo_env without_file demo_world) =
     \<lparr>status = 500, body = [(''error'', JStr ''No file uploaded.'')]\<rparr>
   \<and> success_flag (fst (part000_endpoint demo_env without_file demo_world)) = None"
  by (simp add: part000_endpoint_def upload_single_def without_file_def part000_handler_def
        part000_try_def part000_errorHandler_def newError_def if_path_def Let_def
        success_flag_def)

text \<open>
  C7, amended. Every response of POST /api/process is either the success
  \<^verbatim>\<open>{success: true, output}\<close> with a non-empty output (an empty or missing completion
  content never gives a success), or a failure with a non-2xx status whose JSON body has
  an \<^verbatim>\<open>error\<close> field carrying a message. Only the failures answered by the catch block
  of server.js also carry \<^verbatim>\<open>success: false\<close> (with status 500); the failures answered
  by an error handler (all of part_000, part_001 and part_002, and the upload rejections
  of server.js) and the upstream-error reply of part_002 have no \<^verbatim>\<open>success\<close> field.
\<close>

theorem response_shapes:
  "((\<exists>out. out \<noteq> [] \<and> fst (server_endpoint e inc w) = success_response out)
    \<or> (status (fst (server_endpoint e inc w)) = 500
        \<and> success_flag (fst (server_endpoint e inc w)) = Some (JBool False)
        \<and> error_message (fst (server_endpoint e inc w)) \<noteq> None)
    \<or> (isl (fst (upload_single image_or_pdf_filter server_fileSize e inc w))
        \<and> status (fst (server_endpoint e inc w)) \<in> {400, 500}
        \<and> success_flag (fst (server_endpoint e inc w)) = None
        \<and> error_message (fst (server_endpoint e inc w)) \<noteq> None))
   \<and> ((\<exists>out. out \<noteq> [] \<and> fst (part000_endpoint e inc w) = success_response out)
    \<or> (status (fst (part000_endpoint e inc w)) \<in> {400, 500}
        \<and> success_flag (fst (part000_endpoint e inc w)) = None
        \<and> error_message (fst (part000_endpoint e inc w)) \<noteq> None))
   \<and> ((\<exists>out. out \<noteq> [] \<and> fst (part001_endpoint e inc w) = success_response out)
    \<or> (status (fst (part001_endpoint e inc w)) \<in> {400, 500}
        \<and> success_flag (fst (part001_endpoint e inc w)) = None
        \<and> error_message (fst (part001_endpoint e inc w)) \<noteq> None))
   \<and> ((\<exists>out. out \<noteq> [] \<and> fst (part002_endpoint e inc w) = success_response out)
    \<or> (\<not> (200 \<le> status (fst (part002_endpoint e inc w))
            \<and> status (fst (part002_endpoint e inc w)) \<le> 299)
        \<and> success_flag (fst (part002_endpoint e inc w)) = None
        \<and> error_message (fst (part002_endpoint e inc w)) \<noteq> None))"
  using server_endpoint_shape [of e inc w] part000_endpoint_shape [of e inc w]
    part001_endpoint_shape [of e inc w] part002_endpoint_shape [of e inc w]
  by (intro conjI)

theorem response_shapes_witness:
  "status (fst (server_endpoint demo_env (without_prompt demo_pdf) demo_world)) = 500
   \<and> success_flag (fst (server_endpoint demo_env (without_prompt demo_pdf) demo_world))
       = Some (JBool False)
   \<and> error_message (fst (server_endpoint demo_env (without_prompt demo_pdf) demo_world)) \<noteq> None
   \<and> success_flag (fst (part001_endpoint demo_env without_file demo_world)) = None
   \<and> error_message (fst (part001_endpoint demo_env without_file demo_world)) \<noteq> None"
proof -
  have s: "status (fst (server_endpoint demo_env (without_prompt demo_pdf) demo_world)) = 500"
    "\<not> isl (fst (upload_single image_or_pdf_filter server_fileSize demo_env
                    (without_prompt demo_pdf) demo_world))"
    by (simp_all add: server_endpoint_def upload_single_def without_prompt_def demo_pdf_def
          image_or_pdf_filter_def server_fileSize_def server_handler_def server_try_def
          throw_def Let_def)
  have p: "status (fst (part001_endpoint demo_env without_file demo_world)) = 500"
    by (simp add: part001_endpoint_def upload_single_def without_file_def part001_handler_def
          part001_try_def throw_def part000_errorHandler_def newError_def Let_def)
  have ok200: "status (success_response out) = 200" for out
    by (simp add: success_response_def)
  have a: "status (fst (server_endpoint demo_env (without_prompt demo_pdf) demo_world)) = 500
      \<and> success_flag (fst (server_endpoint demo_env (without_prompt demo_pdf) demo_world))
          = Some (JBool False)
      \<and> error_message (fst (server_endpoint demo_env (without_prompt demo_pdf) demo_world))
          \<noteq> None"
    using response_shapes [of demo_env "without_prompt demo_pdf" demo_world] s ok200
    by auto
  have b: "success_flag (fst (part001_endpoint demo_env without_file demo_world)) = None
      \<and> error_message (fst (part001_endpoint demo_env without_file demo_world)) \<noteq> None"
    using response_shapes [of demo_env without_file demo_world] p ok200
    by auto
  show ?thesis using a b by simp
qed

section \<open>File names, truncation and the built-in prompt\<close>

lemma not_safe_underscore: "\<not> safe_char (CHR ''_'')"
  by (simp add: safe_char_def)

lemma not_safe_slash: "\<not> safe_char (CHR ''/'')"
  by (simp add: safe_char_def)

text \<open>
  C8, as stated, fails: the characters outside the class are not stripped but replaced,
  one underscore for each, so "my report.pdf" is stored as "42-my_report.pdf" (at time 42),
  not as "42-myreport.pdf", and the stored name holds a character outside the class.
\<close>

theorem stored_filename_counterexample:
  "originalname demo_pdf = ''my report.pdf''
   \<and> filename demo_env demo_pdf = ''42-my_report.pdf''
   \<and> decimal (now demo_env) @ ''-'' @ filter safe_char (originalname demo_pdf)
       = ''42-myreport.pdf''
   \<and> \<not> safe_char (CHR ''_'')"
  by (simp add: filename_def sanitize_def safe_char_def demo_pdf_def demo_env_fields decimal_42)

text \<open>
  C8, amended. The stored file name is the decimal timestamp, a hyphen and the sanitized
  original name, in the uploads directory. Sanitizing replaces every character outside
  \<^verbatim>\<open>[a-zA-Z0-9.-]\<close> by an underscore and keeps the others: the length is unchanged, the
  result holds only characters of the class and underscores (so no slash), and a name
  within the class is stored as it is.
\<close>

theorem stored_filename:
  "filename e f = decimal (now e) @ ''-'' @ sanitize (originalname f)
   \<and> stored_path e f = dirname e @ ''/data/uploads/'' @ filename e f
   \<and> set (decimal (now e)) \<subseteq> set ''0123456789''
   \<and> length (sanitize name) = length name
   \<and> (\<forall>i < length name.
         sanitize name ! i = (if safe_char (name ! i) then name ! i else CHR ''_''))
   \<and> (\<forall>c \<in> set (sanitize name). safe_char c \<or> c = CHR ''_'')
   \<and> CHR ''/'' \<notin> set (sanitize name)
   \<and> ((\<forall>c \<in> set name. safe_char c) \<longrightarrow> sanitize name = name)"
proof (intro conjI)
  show "filename e f = decimal (now e) @ ''-'' @ sanitize (originalname f)"
    by (simp add: filename_def)
  show "stored_path e f = dirname e @ ''/data/uploads/'' @ filename e f"
    by (simp add: stored_path_def uploadsDir_def)
  show "set (decimal (now e)) \<subseteq> set ''0123456789''"
    by (rule decimal_digits)
  show "length (sanitize name) = length name"
    by (simp add: sanitize_def)
  show "\<forall>i < length name.
         sanitize name ! i = (if safe_char (name ! i) then name ! i else CHR ''_'')"
    by (simp add: sanitize_def)
  show "\<forall>c \<in> set (sanitize name). safe_char c \<or> c = CHR ''_''"
    by (auto simp: sanitize_def)
  show "CHR ''/'' \<notin> set (sanitize name)"
    using not_safe_slash by (auto simp: sanitize_def split: if_splits)
  show "(\<forall>c \<in> set name. safe_char c) \<longrightarrow> sanitize name = name"
    by (simp add: sanitize_def map_idI)
qed

theorem stored_filename_witness:
  "filename demo_env demo_pdf = ''42-my_report.pdf''
   \<and> stored_path demo_env demo_pdf = ''/app/data/uploads/42-my_report.pdf''
   \<and> sanitize ''my report.pdf'' ! 2 = CHR ''_''
   \<and> sanitize ''report.pdf'' = ''report.pdf''"
proof -
  have safe: "\<forall>c \<in> set ''report.pdf''. safe_char c"
    by (simp add: safe_char_def)
  have two: "(2::nat) < length ''my report.pdf''" "\<not> safe_char (''my report.pdf'' ! 2)"
    by (simp_all add: safe_char_def)
  have san: "sanitize ''my report.pdf'' = ''my_report.pdf''"
    by (simp add: sanitize_def safe_char_def)
  have a: "sanitize ''my report.pdf'' ! 2 = CHR ''_''"
    using stored_filename [of demo_env demo_pdf "''my report.pdf''"] two by auto
  have b: "sanitize ''report.pdf'' = ''report.pdf''"
    using stored_filename [of demo_env demo_pdf "''report.pdf''"] safe by blast
  have c: "filename demo_env demo_pdf = ''42-my_report.pdf''"
    "stored_path demo_env demo_pdf = ''/app/data/uploads/42-my_report.pdf''"
    using stored_filename [of demo_env demo_pdf "''report.pdf''"] san
    by (simp_all add: demo_env_fields decimal_42 demo_pdf_def)
  show ?thesis using a b c by simp
qed

section \<open>Where the content of the completion request comes from\<close>

lemma upload_parse_completions:
  "uploadFileToLlamaParse e p n w = (r, w1) \<Longrightarrow> completion_requests w1 = completion_requests w"
  by (auto simp: uploadFileToLlamaParse_def then_io_def readFile_def Let_def
        completion_requests_emit split: option.splits sum.splits if_splits)

lemma poll_completions:
  "pollForResult e j w1 = (r, w2) \<Longrightarrow> completion_requests w2 = completion_requests w1"
  by (auto simp: completion_requests_emit completions_polls dest!: pollForResult_world)

lemma server_try_parsed:
  assumes "req_file req = Some sf" and "req_prompt req = Some p" and "trim p \<noteq> []"
    and "truthy (LLAMA_CLOUD_API_KEY e)" and "truthy (GROQ_API_KEY e)"
    and u: "uploadFileToLlamaParse e (path sf) (originalname sf) w = (Inr jobId, w1)"
    and pl: "pollForResult e jobId w1 = (Inr (Some md), w2)" and "md \<noteq> []"
    and t: "server_try e req w = (r, w')"
  shows "completion_requests w' = completion_requests w2 @ [server_requestBody (trim p) md]"
  using assms
  by (auto simp: server_try_def then_io_def fetch_completion_def ret_def throw_def Let_def
        completion_requests_emit completion_requests_if_path
        split: option.splits sum.splits if_splits)

lemma server_try_origin:
  assumes t: "server_try e req w = (r, w')"
  shows "completion_requests w' = completion_requests w
         \<or> (\<exists>sf p jobId w1 md w2.
               req_file req = Some sf \<and> req_prompt req = Some p
               \<and> uploadFileToLlamaParse e (path sf) (originalname sf) w = (Inr jobId, w1)
               \<and> pollForResult e jobId w1 = (Inr (Some md), w2)
               \<and> completion_requests w' = completion_requests w @ [server_requestBody (trim p) md])"
proof (cases "\<exists>sf p. req_file req = Some sf \<and> req_prompt req = Some p \<and> trim p \<noteq> []
                \<and> truthy (LLAMA_CLOUD_API_KEY e) \<and> truthy (GROQ_API_KEY e)")
  case False
  then have "w' = w"
    using t
    by (auto simp: server_try_def throw_def Let_def split: option.splits if_splits)
  then show ?thesis by simp
next
  case True
  then obtain sf p where h: "req_file req = Some sf" "req_prompt req = Some p" "trim p \<noteq> []"
    "truthy (LLAMA_CLOUD_API_KEY e)" "truthy (GROQ_API_KEY e)"
    by blast
  obtain ru w1 where u: "uploadFileToLlamaParse e (path sf) (originalname sf) w = (ru, w1)"
    by (cases "uploadFileToLlamaParse e (path sf) (originalname sf) w") auto
  have c1: "completion_requests w1 = completion_requests w"
    by (rule upload_parse_completions [OF u])
  show ?thesis
  proof (cases ru)
    case (Inl err)
    then have "w' = w1"
      using t h u by (simp add: server_try_def then_io_def Let_def)
    then show ?thesis using c1 by simp
  next
    case (Inr jobId)
    obtain rp w2 where pl: "pollForResult e jobId w1 = (rp, w2)"
      by (cases "pollForResult e jobId w1") auto
    have c2: "completion_requests w2 = completion_requests w"
      using poll_completions [OF pl] c1 by simp
    show ?thesis
    proof (cases "\<exists>md. rp = Inr (Some md) \<and> md \<noteq> []")
      case False
      then have "w' = w2"
        using t h u Inr pl
        by (auto simp: server_try_def then_io_def throw_def Let_def
              split: option.splits sum.splits if_splits)
      then show ?thesis using c2 by simp
    next
      case True
      then obtain md where md: "rp = Inr (Some md)" "md \<noteq> []" by blast
      have u': "uploadFileToLlamaParse e (path sf) (originalname sf) w = (Inr jobId, w1)"
        using u Inr by simp
      have pl': "pollForResult e jobId w1 = (Inr (Some md), w2)"
        using pl md by simp
      have "completion_requests w' = completion_requests w2 @ [server_requestBody (trim p) md]"
        by (rule server_try_parsed [OF h u' pl' md(2) t])
      then have "completion_requests w' = completion_requests w @ [server_requestBody (trim p) md]"
        using c2 by simp
      then show ?thesis
        using h(1,2) u' pl' by blast
    qed
  qed
qed

lemma server_endpoint_stored:
  assumes "in_file inc = Some f" and "image_or_pdf_filter f = None" and "fsize f \<le> server_fileSize"
  shows "completion_requests (snd (server_endpoint e inc w))
      = completion_requests (snd (server_try e
          \<lparr>req_file = Some (upload_file.extend f (stored_file.fields (stored_path e f))),
           req_prompt = in_prompt inc\<rparr>
          (w\<lparr>files := (files w)(stored_path e f \<mapsto> bytes f)\<rparr>)))"
proof -
  let ?w1 = "w\<lparr>files := (files w)(stored_path e f \<mapsto> bytes f)\<rparr>"
  let ?req = "\<lparr>req_file = Some (upload_file.extend f (stored_file.fields (stored_path e f))),
               req_prompt = in_prompt inc\<rparr>"
  have up: "upload_single image_or_pdf_filter server_fileSize e inc w = (Inr ?req, ?w1)"
    using assms by (simp add: upload_single_def)
  obtain r w2 where t: "server_try e ?req ?w1 = (r, w2)"
    by (cases "server_try e ?req ?w1") auto
  show ?thesis
    using t
    by (cases r)
       (simp_all add: server_endpoint_def up server_handler_def completion_requests_if_path)
qed

lemma server_sent_parsed:
  assumes f: "in_file inc = Some f" "image_or_pdf_filter f = None" "fsize f \<le> server_fileSize"
    and p: "in_prompt inc = Some p" "trim p \<noteq> []"
    and keys: "truthy (LLAMA_CLOUD_API_KEY e)" "truthy (GROQ_API_KEY e)"
    and u: "uploadFileToLlamaParse e (stored_path e f) (originalname f)
              (w\<lparr>files := (files w)(stored_path e f \<mapsto> bytes f)\<rparr>) = (Inr jobId, w1)"
    and pl: "pollForResult e jobId w1 = (Inr (Some md), w2)" and md: "md \<noteq> []"
  shows "sent_by (server_endpoint e inc) w = [server_requestBody (trim p) md]"
proof -
  let ?w0 = "w\<lparr>files := (files w)(stored_path e f \<mapsto> bytes f)\<rparr>"
  let ?sf = "upload_file.extend f (stored_file.fields (stored_path e f))"
  let ?req = "\<lparr>req_file = Some ?sf, req_prompt = in_prompt inc\<rparr>"
  obtain r w' where t: "server_try e ?req ?w0 = (r, w')"
    by (cases "server_try e ?req ?w0") auto
  have u': "uploadFileToLlamaParse e (path ?sf) (originalname ?sf) ?w0 = (Inr jobId, w1)"
    using u by (simp add: stored_file_path stored_file_originalname)
  have "completion_requests w' = completion_requests w2 @ [server_requestBody (trim p) md]"
    by (rule server_try_parsed [OF _ _ p(2) keys u' pl md t]) (simp_all add: p(1))
  moreover have "completion_requests w2 = completion_requests w"
    using poll_completions [OF pl] upload_parse_completions [OF u]
    by (simp add: completion_requests_files_update)
  ultimately have "completion_requests (snd (server_endpoint e inc w))
      = completion_requests w @ [server_requestBody (trim p) md]"
    using server_endpoint_stored [OF f, of e w] t by simp
  then show ?thesis by (rule sent_by_cases(2))
qed

lemma server_sent_origin:
  "sent_by (server_endpoint e inc) w = []
   \<or> (\<exists>f p jobId w1 md w2.
         in_file inc = Some f \<and> in_prompt inc = Some p
         \<and> uploadFileToLlamaParse e (stored_path e f) (originalname f)
              (w\<lparr>files := (files w)(stored_path e f \<mapsto> bytes f)\<rparr>) = (Inr jobId, w1)
         \<and> pollForResult e jobId w1 = (Inr (Some md), w2)
         \<and> sent_by (server_endpoint e inc) w = [server_requestBody (trim p) md])"
proof (cases "\<exists>f. in_file inc = Some f \<and> image_or_pdf_filter f = None \<and> fsize f \<le> server_fileSize")
  case False
  then have "snd (server_endpoint e inc w) = w"
    by (auto simp: server_endpoint_def upload_single_def server_handler_def server_try_def
          throw_def if_path_def Let_def split: option.splits)
  then have "sent_by (server_endpoint e inc) w = []"
    by (simp add: sent_by_def)
  then show ?thesis by simp
next
  case True
  then obtain f where f: "in_file inc = Some f" "image_or_pdf_filter f = None"
    "fsize f \<le> server_fileSize" by blast
  let ?w0 = "w\<lparr>files := (files w)(stored_path e f \<mapsto> bytes f)\<rparr>"
  let ?sf = "upload_file.extend f (stored_file.fields (stored_path e f))"
  let ?req = "\<lparr>req_file = Some ?sf, req_prompt = in_prompt inc\<rparr>"
  obtain r w' where t: "server_try e ?req ?w0 = (r, w')"
    by (cases "server_try e ?req ?w0") auto
  have fin: "completion_requests (snd (server_endpoint e inc w)) = completion_requests w'"
    using server_endpoint_stored [OF f, of e w] t by simp
  from server_try_origin [OF t] show ?thesis
  proof
    assume "completion_requests w' = completion_requests ?w0"
    then have "completion_requests (snd (server_endpoint e inc w)) = completion_requests w"
      using fin by (simp add: completion_requests_files_update)
    then have "sent_by (server_endpoint e inc) w = []" by (rule sent_by_cases(1))
    then show ?thesis by simp
  next
    assume "\<exists>sf p jobId w1 md w2.
               req_file ?req = Some sf \<and> req_prompt ?req = Some p
               \<and> uploadFileToLlamaParse e (path sf) (originalname sf) ?w0 = (Inr jobId, w1)
               \<and> pollForResult e jobId w1 = (Inr (Some md), w2)
               \<and> completion_requests w' = completion_requests ?w0 @ [server_requestBody (trim p) md]"
    then obtain sf p jobId w1 md w2 where o: "req_file ?req = Some sf" "req_prompt ?req = Some p"
      "uploadFileToLlamaParse e (path sf) (originalname sf) ?w0 = (Inr jobId, w1)"
      "pollForResult e jobId w1 = (Inr (Some md), w2)"
      "completion_requests w' = completion_requests ?w0 @ [server_requestBody (trim p) md]"
      by blast
    have sf: "sf = ?sf" using o(1) by simp
    have u: "uploadFileToLlamaParse e (stored_path e f) (originalname f) ?w0 = (Inr jobId, w1)"
      using o(3) sf by (simp add: stored_file_path stored_file_originalname)
    have "completion_requests (snd (server_endpoint e inc w))
        = completion_requests w @ [server_requestBody (trim p) md]"
      using fin o(5) by (simp add: completion_requests_files_update)
    then have "sent_by (server_endpoint e inc) w = [server_requestBody (trim p) md]"
      by (rule sent_by_cases(2))
    moreover have "in_prompt inc = Some p" using o(2) by simp
    ultimately show ?thesis
      using f(1) u o(4) by blast
  qed
qed

lemma server_sent_messages:
  "sent_by (server_endpoint e inc) w = []
   \<or> (\<exists>prompt parsed.
         sent_by (server_endpoint e inc) w = [server_requestBody prompt parsed]
         \<and> messages (server_requestBody prompt parsed) =
             [\<lparr>role = ''system'', content = Plain ''You are a helpful assistant.''\<rparr>,
              \<lparr>role = ''user'',
               content = Plain (''Instruction: '' @ [quote] @ prompt @ [quote, nl, nl]
                                @ ''Content:'' @ [nl] @ truncatedContent parsed)\<rparr>])"
proof -
  have m: "messages (server_requestBody prompt parsed) =
             [\<lparr>role = ''system'', content = Plain ''You are a helpful assistant.''\<rparr>,
              \<lparr>role = ''user'',
               content = Plain (''Instruction: '' @ [quote] @ prompt @ [quote, nl, nl]
                                @ ''Content:'' @ [nl] @ truncatedContent parsed)\<rparr>]"
    for prompt parsed
    by (simp add: server_requestBody_def server_user_content_def)
  from server_sent [of e inc w] show ?thesis
  proof
    assume "sent_by (server_endpoint e inc) w = []"
    then show ?thesis by simp
  next
    assume "\<exists>prompt parsed. prompt \<noteq> [] \<and> parsed \<noteq> []
         \<and> sent_by (server_endpoint e inc) w = [server_requestBody prompt parsed]"
    then obtain prompt parsed
      where "sent_by (server_endpoint e inc) w = [server_requestBody prompt parsed]"
      by blast
    then show ?thesis using m [of prompt parsed] by blast
  qed
qed

text \<open>
  C9, as stated, fails: a parsed content of 10001 characters is cut to its first 10000
  and the marker "... [content truncated]" is appended, so the content placed in the
  request has 10023 characters, and the user message, which also holds the instruction,
  is longer still.
\<close>

theorem content_truncation_counterexample:
  "maxContentLength = 10000
   \<and> length (truncatedContent (replicate 10001 (CHR ''a''))) = 10023
   \<and> length (server_user_content ''Summarise'' (replicate 10001 (CHR ''a''))) = 10058"
  by (simp add: maxContentLength_def truncatedContent_def server_user_content_def)

lemma demo_upload:
  assumes "upload_reply e = Inr demo_uploaded" and "files w p = Some b"
  shows "uploadFileToLlamaParse e p n w
           = (Inr (Some ''job-1''), emit [ReadFile p, ParserUpload n b] w)"
  using assms
  by (simp add: uploadFileToLlamaParse_def then_io_def readFile_def Let_def ok_def
        demo_uploaded_def no_json_def emit_emit)

lemma demo_poll_long:
  "pollForResult demo_env_long j w
     = (Inr (Some (replicate 10001 (CHR ''a''))), emit (polls j 1) w)"
proof -
  have "pollForResult demo_env_long j w = pollLoop demo_env_long j 0 (emit (polls j 0) w)"
    by (rule pollForResult_after) simp_all
  also have "\<dots> = (Inr (Some (replicate 10001 (CHR ''a''))), emit (polls j 1) w)"
    using pollLoop_last [of 0 demo_env_long demo_long_parsed j w]
    by (simp add: maxAttempts_def demo_env_long_def demo_env_def demo_long_parsed_def ok_def
          no_json_def)
  finally show ?thesis .
qed

text \<open>
  C9, amended. In server.js the content placed in the completion request is the
  markdown that the hosted parser returned for the uploaded file: whole when it has at
  most 10000 characters, otherwise its first 10000 characters followed by the marker
  "... [content truncated]". The content part therefore has at most 10023 characters and
  agrees with the parsed markdown on its first 10000. It is sent inside the user
  message, after the instruction header built from the trimmed prompt; a run sends
  nothing else to the completion service.
\<close>

theorem content_truncation:
  "(length md \<le> maxContentLength \<longrightarrow> truncatedContent md = md)
   \<and> (length md > maxContentLength \<longrightarrow>
        truncatedContent md = take maxContentLength md @ ''... [content truncated]'')
   \<and> length (truncatedContent md) \<le> maxContentLength + 23
   \<and> take maxContentLength (truncatedContent md) = take maxContentLength md
   \<and> messages (server_requestBody q md) =
       [\<lparr>role = ''system'', content = Plain ''You are a helpful assistant.''\<rparr>,
        \<lparr>role = ''user'',
         content = Plain (''Instruction: '' @ [quote] @ q @ [quote, nl, nl]
                          @ ''Content:'' @ [nl] @ truncatedContent md)\<rparr>]
   \<and> (in_file inc = Some f \<and> image_or_pdf_filter f = None \<and> fsize f \<le> server_fileSize
       \<and> in_prompt inc = Some p \<and> trim p \<noteq> []
       \<and> truthy (LLAMA_CLOUD_API_KEY e) \<and> truthy (GROQ_API_KEY e)
       \<and> uploadFileToLlamaParse e (stored_path e f) (originalname f)
            (w\<lparr>files := (files w)(stored_path e f \<mapsto> bytes f)\<rparr>) = (Inr jobId, w1)
       \<and> pollForResult e jobId w1 = (Inr (Some md), w2) \<and> md \<noteq> [] \<longrightarrow>
       sent_by (server_endpoint e inc) w = [server_requestBody (trim p) md])
   \<and> (sent_by (server_endpoint e inc) w = []
      \<or> (\<exists>f p jobId w1 parsed w2.
            in_file inc = Some f \<and> in_prompt inc = Some p
            \<and> uploadFileToLlamaParse e (stored_path e f) (originalname f)
                 (w\<lparr>files := (files w)(stored_path e f \<mapsto> bytes f)\<rparr>) = (Inr jobId, w1)
            \<and> pollForResult e jobId w1 = (Inr (Some parsed), w2)
            \<and> sent_by (server_endpoint e inc) w = [server_requestBody (trim p) parsed]))"
proof (intro conjI impI)
  show "length md \<le> maxContentLength \<Longrightarrow> truncatedContent md = md"
    by (simp add: truncatedContent_def)
  show "length md > maxContentLength \<Longrightarrow>
        truncatedContent md = take maxContentLength md @ ''... [content truncated]''"
    by (simp add: truncatedContent_def)
  show "length (truncatedContent md) \<le> maxContentLength + 23"
    by (simp add: truncatedContent_def)
  show "take maxContentLength (truncatedContent md) = take maxContentLength md"
    by (simp add: truncatedContent_def)
  show "messages (server_requestBody q md) =
       [\<lparr>role = ''system'', content = Plain ''You are a helpful assistant.''\<rparr>,
        \<lparr>role = ''user'',
         content = Plain (''Instruction: '' @ [quote] @ q @ [quote, nl, nl]
                          @ ''Content:'' @ [nl] @ truncatedContent md)\<rparr>]"
    by (simp add: server_requestBody_def server_user_content_def)
  show "sent_by (server_endpoint e inc) w = [server_requestBody (trim p) md]"
    if "in_file inc = Some f \<and> image_or_pdf_filter f = None \<and> fsize f \<le> server_fileSize
       \<and> in_prompt inc = Some p \<and> trim p \<noteq> []
       \<and> truthy (LLAMA_CLOUD_API_KEY e) \<and> truthy (GROQ_API_KEY e)
       \<and> uploadFileToLlamaParse e (stored_path e f) (originalname f)
            (w\<lparr>files := (files w)(stored_path e f \<mapsto> bytes f)\<rparr>) = (Inr jobId, w1)
       \<and> pollForResult e jobId w1 = (Inr (Some md), w2) \<and> md \<noteq> []"
    using that server_sent_parsed [of inc f p e w jobId w1 md w2] by simp
  show "sent_by (server_endpoint e inc) w = []
      \<or> (\<exists>f p jobId w1 parsed w2.
            in_file inc = Some f \<and> in_prompt inc = Some p
            \<and> uploadFileToLlamaParse e (stored_path e f) (originalname f)
                 (w\<lparr>files := (files w)(stored_path e f \<mapsto> bytes f)\<rparr>) = (Inr jobId, w1)
            \<and> pollForResult e jobId w1 = (Inr (Some parsed), w2)
            \<and> sent_by (server_endpoint e inc) w = [server_requestBody (trim p) parsed])"
    by (rule server_sent_origin)
qed

theorem content_truncation_witness:
  "sent_by (server_endpoint demo_env_long (with_prompt demo_pdf)) demo_world
     = [server_requestBody ''Summarise'' (replicate 10001 (CHR ''a''))]
   \<and> messages (server_requestBody ''Summarise'' (replicate 10001 (CHR ''a''))) =
       [\<lparr>role = ''system'', content = Plain ''You are a helpful assistant.''\<rparr>,
        \<lparr>role = ''user'',
         content = Plain (''Instruction: '' @ [quote] @ ''Summarise'' @ [quote, nl, nl]
                          @ ''Content:'' @ [nl] @ replicate 10000 (CHR ''a'')
                          @ ''... [content truncated]'')\<rparr>]
   \<and> sent_by (server_endpoint demo_env (with_prompt demo_pdf)) demo_world
     = [server_requestBody ''Summarise'' ''# Invoice 7'']
   \<and> truncatedContent ''# Invoice 7'' = ''# Invoice 7''"
proof -
  let ?p = "''/app/data/uploads/42-my_report.pdf''"
  let ?w0 = "demo_world\<lparr>files := (files demo_world)(?p \<mapsto> ''%PDF-'')\<rparr>"
  let ?w1 = "emit [ReadFile ?p, ParserUpload ''my report.pdf'' ''%PDF-''] ?w0"
  let ?long = "replicate 10001 (CHR ''a'')"
  have fields: "now demo_env_long = 42" "dirname demo_env_long = ''/app''"
    "LLAMA_CLOUD_API_KEY demo_env_long = Some ''llx-1''"
    "GROQ_API_KEY demo_env_long = Some ''gsk-1''"
    "upload_reply demo_env_long = Inr demo_uploaded"
    by (simp_all add: demo_env_long_def demo_env_def)
  have sp: "stored_path demo_env_long demo_pdf = ?p" "stored_path demo_env demo_pdf = ?p"
    by (simp_all add: stored_path_def uploadsDir_def filename_def sanitize_def safe_char_def
          demo_pdf_def fields demo_env_fields decimal_42)
  have req: "in_file (with_prompt demo_pdf) = Some demo_pdf"
    "image_or_pdf_filter demo_pdf = None" "fsize demo_pdf \<le> server_fileSize"
    "in_prompt (with_prompt demo_pdf) = Some ''Summarise''" "trim ''Summarise'' = ''Summarise''"
    "originalname demo_pdf = ''my report.pdf''" "bytes demo_pdf = ''%PDF-''"
    by (simp_all add: with_prompt_def image_or_pdf_filter_def demo_pdf_def server_fileSize_def
          trim_def js_space_def)
  have keys: "truthy (LLAMA_CLOUD_API_KEY demo_env_long)" "truthy (GROQ_API_KEY demo_env_long)"
    "truthy (LLAMA_CLOUD_API_KEY demo_env)" "truthy (GROQ_API_KEY demo_env)"
    by (simp_all add: truthy_def fields demo_env_fields)
  have up_long: "uploadFileToLlamaParse demo_env_long ?p ''my report.pdf'' ?w0
      = (Inr (Some ''job-1''), ?w1)"
    by (rule demo_upload) (simp_all add: fields)
  have up: "uploadFileToLlamaParse demo_env ?p ''my report.pdf'' ?w0
      = (Inr (Some ''job-1''), ?w1)"
    by (rule demo_upload) (simp_all add: demo_env_fields)
  have long_ne: "?long \<noteq> []" by simp
  have a: "sent_by (server_endpoint demo_env_long (with_prompt demo_pdf)) demo_world
      = [server_requestBody ''Summarise'' ?long]"
    using content_truncation
        [of ?long _ "with_prompt demo_pdf" demo_pdf "''Summarise''" demo_env_long demo_world
            "Some ''job-1''" ?w1 "emit (polls (Some ''job-1'') 1) ?w1"]
      req keys up_long demo_poll_long [of "Some ''job-1''" ?w1] long_ne
    by (simp add: sp)
  have b: "messages (server_requestBody ''Summarise'' ?long) =
       [\<lparr>role = ''system'', content = Plain ''You are a helpful assistant.''\<rparr>,
        \<lparr>role = ''user'',
         content = Plain (''Instruction: '' @ [quote] @ ''Summarise'' @ [quote, nl, nl]
                          @ ''Content:'' @ [nl] @ replicate 10000 (CHR ''a'')
                          @ ''... [content truncated]'')\<rparr>]"
  proof -
    have "length ?long > maxContentLength"
      "take maxContentLength ?long = replicate 10000 (CHR ''a'')"
      by (simp_all add: maxContentLength_def)
    then have "truncatedContent ?long = replicate 10000 (CHR ''a'') @ ''... [content truncated]''"
      using content_truncation [of ?long] by simp
    then show ?thesis
      using content_truncation [of ?long "''Summarise''"] by simp
  qed
  have c: "sent_by (server_endpoint demo_env (with_prompt demo_pdf)) demo_world
      = [server_requestBody ''Summarise'' ''# Invoice 7'']"
    using content_truncation
        [of "''# Invoice 7''" _ "with_prompt demo_pdf" demo_pdf "''Summarise''" demo_env
            demo_world "Some ''job-1''" ?w1 "emit (polls (Some ''job-1'') 3) ?w1"]
      req keys up demo_poll [of "Some ''job-1''" ?w1]
    by (simp add: sp)
  have d: "truncatedContent ''# Invoice 7'' = ''# Invoice 7''"
    using content_truncation [of "''# Invoice 7''"] by (simp add: maxContentLength_def)
  show ?thesis
    using a b c d by simp
qed

lemma part001_handler_ignores_prompt:
  "part001_handler e \<lparr>req_file = fl, req_prompt = p\<rparr> w
     = part001_handler e \<lparr>req_file = fl, req_prompt = q\<rparr> w"
  by (simp add: part001_handler_def part001_try_def)

text \<open>
  C10. In part_001 the \<^verbatim>\<open>prompt\<close> form field has no influence: two requests that differ
  only in it give the same response and the same effects, in every environment and
  world. The one completion request that a run may send is built from the stored file
  alone, with the built-in extraction prompt as its text part.
\<close>

theorem part001_prompt_ignored:
  "part001_endpoint e (inc\<lparr>in_prompt := p\<rparr>) w = part001_endpoint e (inc\<lparr>in_prompt := q\<rparr>) w
   \<and> (sent_by (part001_endpoint e inc) w = []
      \<or> (\<exists>f. in_file inc = Some f
            \<and> sent_by (part001_endpoint e inc) w
                = [part001_payload e
                     (upload_file.extend f (stored_file.fields (stored_path e f))) (bytes f)]))
   \<and> messages (part001_payload e sf buffer) =
       [\<lparr>role = ''system'', content = Plain extraction_system_prompt\<rparr>,
        \<lparr>role = ''user'',
         content = Parts [TextPart builtin_prompt,
                          ImageUrl (''data:'' @ mimetype sf @ '';base64,'' @ base64 e buffer)]\<rparr>]"
proof (intro conjI)
  show "part001_endpoint e (inc\<lparr>in_prompt := p\<rparr>) w
      = part001_endpoint e (inc\<lparr>in_prompt := q\<rparr>) w"
    by (simp add: part001_endpoint_def upload_single_def
          part001_handler_ignores_prompt [of e _ p _ q]
          split: option.splits)
  show "sent_by (part001_endpoint e inc) w = []
      \<or> (\<exists>f. in_file inc = Some f
            \<and> sent_by (part001_endpoint e inc) w
                = [part001_payload e
                     (upload_file.extend f (stored_file.fields (stored_path e f))) (bytes f)])"
    by (rule part001_sent)
  show "messages (part001_payload e sf buffer) =
       [\<lparr>role = ''system'', content = Plain extraction_system_prompt\<rparr>,
        \<lparr>role = ''user'',
         content = Parts [TextPart builtin_prompt,
                          ImageUrl (''data:'' @ mimetype sf @ '';base64,'' @ base64 e buffer)]\<rparr>]"
    by (simp add: part001_payload_def scout_requestBody_def image_messages_def)
qed

theorem part001_prompt_ignored_witness:
  "part001_endpoint demo_env (with_prompt demo_png) demo_world
     = part001_endpoint demo_env (without_prompt demo_png) demo_world
   \<and> fst (part001_endpoint demo_env (without_prompt demo_png) demo_world)
       = success_response ''Total due: 40''"
proof -
  have "(with_prompt demo_png)\<lparr>in_prompt := Some ''Summarise''\<rparr> = with_prompt demo_png"
    "(with_prompt demo_png)\<lparr>in_prompt := None\<rparr> = without_prompt demo_png"
    by (simp_all add: with_prompt_def without_prompt_def)
  then have same: "part001_endpoint demo_env (with_prompt demo_png) demo_world
     = part001_endpoint demo_env (without_prompt demo_png) demo_world"
    using part001_prompt_ignored
        [where e = demo_env and inc = "with_prompt demo_png" and p = "Some ''Summarise''"
           and q = None and w = demo_world]
    by simp
  have "fst (part001_endpoint demo_env (without_prompt demo_png) demo_world)
      = fst (part001_endpoint demo_env (with_prompt demo_png) demo_world)"
    by (simp only: same)
  then show ?thesis
    using same by (simp add: part001_demo_run)
qed

section \<open>The claim on cleanup\<close>

text \<open>
  C2, as stated, fails in server.js: on its success path the handler calls
  \<^verbatim>\<open>fs.unlink\<close> on the upload before it responds and again in its \<^verbatim>\<open>finally\<close> block,
  two delete calls for one request (the second finds the file gone).
\<close>

theorem upload_deleted_exactly_once_counterexample:
  "in_file (with_prompt demo_pdf) = Some demo_pdf
   \<and> fst (server_endpoint demo_env (with_prompt demo_pdf) demo_world)
       = success_response ''Total due: 40''
   \<and> stored_path demo_env demo_pdf = ''/app/data/uploads/42-my_report.pdf''
   \<and> filter (is_unlink ''/app/data/uploads/42-my_report.pdf'')
        (trace (snd (server_endpoint demo_env (with_prompt demo_pdf) demo_world)))
       = [Unlink ''/app/data/uploads/42-my_report.pdf'' True,
          Unlink ''/app/data/uploads/42-my_report.pdf'' False]
   \<and> unlink_calls (stored_path demo_env demo_pdf)
        (snd (server_endpoint demo_env (with_prompt demo_pdf) demo_world)) = 2"
proof -
  have p: "stored_path demo_env demo_pdf = ''/app/data/uploads/42-my_report.pdf''"
    by (simp add: stored_path_def uploadsDir_def filename_def sanitize_def safe_char_def
          demo_pdf_def demo_env_fields decimal_42)
  have t: "filter (is_unlink ''/app/data/uploads/42-my_report.pdf'')
        (trace (snd (server_endpoint demo_env (with_prompt demo_pdf) demo_world)))
       = [Unlink ''/app/data/uploads/42-my_report.pdf'' True,
          Unlink ''/app/data/uploads/42-my_report.pdf'' False]"
    by (simp add: server_demo_run is_unlink_polls) (simp add: is_unlink_def)
  have i: "in_file (with_prompt demo_pdf) = Some demo_pdf"
    by (simp add: with_prompt_def)
  have r: "fst (server_endpoint demo_env (with_prompt demo_pdf) demo_world)
       = success_response ''Total due: 40''"
    by (simp add: server_demo_run)
  show ?thesis
    using i r p t by (simp add: unlink_calls_def)
qed

text \<open>
  C2, amended. Whenever the middleware has accepted and stored an upload, every path of
  every variant's handler ends with the stored file absent, one \<^verbatim>\<open>unlink\<close> call having
  removed it. part_000, part_001 and part_002 call \<^verbatim>\<open>unlink\<close> on the upload exactly
  once per request; server.js calls it once when the request fails and twice when it
  succeeds, the second call finding the file gone and being ignored. In part_000 a run
  rasterizes at most once: without rasterization no \<^verbatim>\<open>unlink\<close> is called on the PNG;
  with it the PNG is absent at the end, \<^verbatim>\<open>unlink\<close> is called on it exactly once, and it
  was removed exactly once when the converter wrote it.
\<close>

theorem upload_deleted_exactly_once:
  "(in_file incS = Some fS \<and> image_or_pdf_filter fS = None \<and> fsize fS \<le> server_fileSize \<longrightarrow>
      files (snd (server_endpoint e incS w)) (stored_path e fS) = None
      \<and> deletions (stored_path e fS) (snd (server_endpoint e incS w))
          = deletions (stored_path e fS) w + 1
      \<and> unlink_calls (stored_path e fS) (snd (server_endpoint e incS w))
          = unlink_calls (stored_path e fS) w
            + (if status (fst (server_endpoint e incS w)) = 200 then 2 else 1))
   \<and> (in_file inc0 = Some f0 \<and> image_or_pdf_filter f0 = None \<and> fsize f0 \<le> part000_fileSize \<longrightarrow>
      files (snd (part000_endpoint e inc0 w)) (stored_path e f0) = None
      \<and> deletions (stored_path e f0) (snd (part000_endpoint e inc0 w))
          = deletions (stored_path e f0) w + 1
      \<and> unlink_calls (stored_path e f0) (snd (part000_endpoint e inc0 w))
          = unlink_calls (stored_path e f0) w + 1
      \<and> (rasterizations (snd (part000_endpoint e inc0 w)) = rasterizations w
           \<and> unlink_calls (png_path e) (snd (part000_endpoint e inc0 w))
               = unlink_calls (png_path e) w
         \<or> rasterizations (snd (part000_endpoint e inc0 w)) = rasterizations w + 1
           \<and> files (snd (part000_endpoint e inc0 w)) (png_path e) = None
           \<and> unlink_calls (png_path e) (snd (part000_endpoint e inc0 w))
               = unlink_calls (png_path e) w + 1
           \<and> deletions (png_path e) (snd (part000_endpoint e inc0 w))
                \<le> deletions (png_path e) w + 1
           \<and> (fst (pdfToPng e (bytes f0)) \<noteq> None \<longrightarrow>
                deletions (png_path e) (snd (part000_endpoint e inc0 w))
                  = deletions (png_path e) w + 1)))
   \<and> (in_file inc1 = Some f1 \<and> image_filter f1 = None \<and> fsize f1 \<le> part001_fileSize \<longrightarrow>
      files (snd (part001_endpoint e inc1 w)) (stored_path e f1) = None
      \<and> deletions (stored_path e f1) (snd (part001_endpoint e inc1 w))
          = deletions (stored_path e f1) w + 1
      \<and> unlink_calls (stored_path e f1) (snd (part001_endpoint e inc1 w))
          = unlink_calls (stored_path e f1) w + 1)
   \<and> (in_file inc2 = Some f2 \<and> pdf_filter f2 = None \<and> fsize f2 \<le> part002_fileSize \<longrightarrow>
      files (snd (part002_endpoint e inc2 w)) (stored_path e f2) = None
      \<and> deletions (stored_path e f2) (snd (part002_endpoint e inc2 w))
          = deletions (stored_path e f2) w + 1
      \<and> unlink_calls (stored_path e f2) (snd (part002_endpoint e inc2 w))
          = unlink_calls (stored_path e f2) w + 1)"
proof (intro conjI impI)
  assume h: "in_file incS = Some fS \<and> image_or_pdf_filter fS = None \<and> fsize fS \<le> server_fileSize"
  then show "files (snd (server_endpoint e incS w)) (stored_path e fS) = None"
    and "deletions (stored_path e fS) (snd (server_endpoint e incS w))
          = deletions (stored_path e fS) w + 1"
    using server_cleanup [of incS fS e w] by simp_all
  from h show "unlink_calls (stored_path e fS) (snd (server_endpoint e incS w))
          = unlink_calls (stored_path e fS) w
            + (if status (fst (server_endpoint e incS w)) = 200 then 2 else 1)"
    using server_calls [of incS fS e w] by simp
next
  assume h: "in_file inc0 = Some f0 \<and> image_or_pdf_filter f0 = None \<and> fsize f0 \<le> part000_fileSize"
  then show "files (snd (part000_endpoint e inc0 w)) (stored_path e f0) = None"
    and "deletions (stored_path e f0) (snd (part000_endpoint e inc0 w))
          = deletions (stored_path e f0) w + 1"
    using part000_cleanup [of inc0 f0 e w] by simp_all
  from h show "unlink_calls (stored_path e f0) (snd (part000_endpoint e inc0 w))
          = unlink_calls (stored_path e f0) w + 1"
    using part000_calls [of inc0 f0 e w] by simp
  have a: "rasterizations (snd (part000_endpoint e inc0 w)) = rasterizations w
         \<or> rasterizations (snd (part000_endpoint e inc0 w)) = rasterizations w + 1
           \<and> files (snd (part000_endpoint e inc0 w)) (png_path e) = None
           \<and> deletions (png_path e) (snd (part000_endpoint e inc0 w))
                \<le> deletions (png_path e) w + 1
           \<and> (fst (pdfToPng e (bytes f0)) \<noteq> None \<longrightarrow>
                deletions (png_path e) (snd (part000_endpoint e inc0 w))
                  = deletions (png_path e) w + 1)"
    using h part000_cleanup [of inc0 f0 e w] by simp
  have b: "rasterizations (snd (part000_endpoint e inc0 w)) = rasterizations w
              \<and> unlink_calls (png_path e) (snd (part000_endpoint e inc0 w))
                  = unlink_calls (png_path e) w
            \<or> rasterizations (snd (part000_endpoint e inc0 w)) = rasterizations w + 1
              \<and> unlink_calls (png_path e) (snd (part000_endpoint e inc0 w))
                  = unlink_calls (png_path e) w + 1"
    using h part000_calls [of inc0 f0 e w] by simp
  from b show "rasterizations (snd (part000_endpoint e inc0 w)) = rasterizations w
           \<and> unlink_calls (png_path e) (snd (part000_endpoint e inc0 w))
               = unlink_calls (png_path e) w
         \<or> rasterizations (snd (part000_endpoint e inc0 w)) = rasterizations w + 1
           \<and> files (snd (part000_endpoint e inc0 w)) (png_path e) = None
           \<and> unlink_calls (png_path e) (snd (part000_endpoint e inc0 w))
               = unlink_calls (png_path e) w + 1
           \<and> deletions (png_path e) (snd (part000_endpoint e inc0 w))
                \<le> deletions (png_path e) w + 1
           \<and> (fst (pdfToPng e (bytes f0)) \<noteq> None \<longrightarrow>
                deletions (png_path e) (snd (part000_endpoint e inc0 w))
                  = deletions (png_path e) w + 1)"
  proof
    assume "rasterizations (snd (part000_endpoint e inc0 w)) = rasterizations w
              \<and> unlink_calls (png_path e) (snd (part000_endpoint e inc0 w))
                  = unlink_calls (png_path e) w"
    then show ?thesis by simp
  next
    assume r: "rasterizations (snd (part000_endpoint e inc0 w)) = rasterizations w + 1
              \<and> unlink_calls (png_path e) (snd (part000_endpoint e inc0 w))
                  = unlink_calls (png_path e) w + 1"
    then have "rasterizations (snd (part000_endpoint e inc0 w)) \<noteq> rasterizations w" by simp
    then show ?thesis using a r by simp
  qed
next
  assume h: "in_file inc1 = Some f1 \<and> image_filter f1 = None \<and> fsize f1 \<le> part001_fileSize"
  then show "files (snd (part001_endpoint e inc1 w)) (stored_path e f1) = None"
    and "deletions (stored_path e f1) (snd (part001_endpoint e inc1 w))
          = deletions (stored_path e f1) w + 1"
    using part001_cleanup [of inc1 f1 e w] by simp_all
  from h show "unlink_calls (stored_path e f1) (snd (part001_endpoint e inc1 w))
          = unlink_calls (stored_path e f1) w + 1"
    using part001_calls [of inc1 f1 e w] by simp
next
  assume h: "in_file inc2 = Some f2 \<and> pdf_filter f2 = None \<and> fsize f2 \<le> part002_fileSize"
  then show "files (snd (part002_endpoint e inc2 w)) (stored_path e f2) = None"
    and "deletions (stored_path e f2) (snd (part002_endpoint e inc2 w))
          = deletions (stored_path e f2) w + 1"
    using part002_cleanup [of inc2 f2 e w] by simp_all
  from h show "unlink_calls (stored_path e f2) (snd (part002_endpoint e inc2 w))
          = unlink_calls (stored_path e f2) w + 1"
    using part002_calls [of inc2 f2 e w] by simp
qed

theorem upload_deleted_exactly_once_witness:
  "files (snd (server_endpoint demo_env (with_prompt demo_pdf) demo_world))
      (stored_path demo_env demo_pdf) = None
   \<and> deletions (stored_path demo_env demo_pdf)
       (snd (server_endpoint demo_env (with_prompt demo_pdf) demo_world)) = 1
   \<and> unlink_calls (stored_path demo_env demo_pdf)
       (snd (server_endpoint demo_env (with_prompt demo_pdf) demo_world)) = 2
   \<and> deletions (stored_path demo_env demo_pdf)
       (snd (server_endpoint demo_env (without_prompt demo_pdf) demo_world)) = 1
   \<and> unlink_calls (stored_path demo_env demo_pdf)
       (snd (server_endpoint demo_env (without_prompt demo_pdf) demo_world)) = 1
   \<and> files (snd (part000_endpoint demo_env (with_prompt demo_png) demo_world))
       (stored_path demo_env demo_png) = None
   \<and> deletions (stored_path demo_env demo_png)
       (snd (part000_endpoint demo_env (with_prompt demo_png) demo_world)) = 1
   \<and> unlink_calls (stored_path demo_env demo_png)
       (snd (part000_endpoint demo_env (with_prompt demo_png) demo_world)) = 1
   \<and> files (snd (part000_endpoint demo_env_no_converter (with_prompt demo_pdf) demo_world))
       (stored_path demo_env_no_converter demo_pdf) = None
   \<and> deletions (stored_path demo_env_no_converter demo_pdf)
       (snd (part000_endpoint demo_env_no_converter (with_prompt demo_pdf) demo_world)) = 1
   \<and> unlink_calls (stored_path demo_env_no_converter demo_pdf)
       (snd (part000_endpoint demo_env_no_converter (with_prompt demo_pdf) demo_world)) = 1
   \<and> files (snd (part001_endpoint demo_env (with_prompt demo_png) demo_world))
       (stored_path demo_env demo_png) = None
   \<and> deletions (stored_path demo_env demo_png)
       (snd (part001_endpoint demo_env (with_prompt demo_png) demo_world)) = 1
   \<and> unlink_calls (stored_path demo_env demo_png)
       (snd (part001_endpoint demo_env (with_prompt demo_png) demo_world)) = 1
   \<and> files (snd (part002_endpoint demo_env (with_prompt demo_pdf) demo_world))
       (stored_path demo_env demo_pdf) = None
   \<and> deletions (stored_path demo_env demo_pdf)
       (snd (part002_endpoint demo_env (with_prompt demo_pdf) demo_world)) = 1
   \<and> unlink_calls (stored_path demo_env demo_pdf)
       (snd (part002_endpoint demo_env (with_prompt demo_pdf) demo_world)) = 1"
proof -
  have pdf: "image_or_pdf_filter demo_pdf = None" "pdf_filter demo_pdf = None"
    "fsize demo_pdf \<le> server_fileSize" "fsize demo_pdf \<le> part000_fileSize"
    "fsize demo_pdf \<le> part002_fileSize"
    by (simp_all add: image_or_pdf_filter_def pdf_filter_def demo_pdf_def server_fileSize_def
          part000_fileSize_def part002_fileSize_def)
  have png: "image_filter demo_png = None" "image_or_pdf_filter demo_png = None"
    "fsize demo_png \<le> part001_fileSize" "fsize demo_png \<le> part000_fileSize"
    by (simp_all add: image_filter_def image_or_pdf_filter_def startsWith_def demo_png_def
          part001_fileSize_def part000_fileSize_def)
  have given: "in_file (with_prompt f) = Some f" "in_file (without_prompt f) = Some f" for f
    by (simp_all add: with_prompt_def without_prompt_def)
  have zero: "deletions p demo_world = 0" "unlink_calls p demo_world = 0" for p
    by (simp_all add: deletions_def unlink_calls_def demo_world_def)
  have ok200: "status (fst (server_endpoint demo_env (with_prompt demo_pdf) demo_world)) = 200"
    by (simp add: server_demo_run success_response_def)
  have failed: "status (fst (server_endpoint demo_env (without_prompt demo_pdf) demo_world)) = 500"
    by (simp add: server_endpoint_def upload_single_def without_prompt_def demo_pdf_def
          image_or_pdf_filter_def server_fileSize_def server_handler_def server_try_def
          throw_def Let_def)
  have a: "files (snd (server_endpoint demo_env (with_prompt demo_pdf) demo_world))
      (stored_path demo_env demo_pdf) = None
    \<and> deletions (stored_path demo_env demo_pdf)
       (snd (server_endpoint demo_env (with_prompt demo_pdf) demo_world)) = 1
    \<and> unlink_calls (stored_path demo_env demo_pdf)
       (snd (server_endpoint demo_env (with_prompt demo_pdf) demo_world)) = 2"
    using upload_deleted_exactly_once
        [of "with_prompt demo_pdf" demo_pdf demo_env demo_world] pdf given ok200
    by (simp add: zero)
  have b: "deletions (stored_path demo_env demo_pdf)
       (snd (server_endpoint demo_env (without_prompt demo_pdf) demo_world)) = 1
    \<and> unlink_calls (stored_path demo_env demo_pdf)
       (snd (server_endpoint demo_env (without_prompt demo_pdf) demo_world)) = 1"
    using upload_deleted_exactly_once
        [of "without_prompt demo_pdf" demo_pdf demo_env demo_world] pdf given failed
    by (simp add: zero)
  have c: "files (snd (part000_endpoint demo_env (with_prompt demo_png) demo_world))
       (stored_path demo_env demo_png) = None
    \<and> deletions (stored_path demo_env demo_png)
       (snd (part000_endpoint demo_env (with_prompt demo_png) demo_world)) = 1
    \<and> unlink_calls (stored_path demo_env demo_png)
       (snd (part000_endpoint demo_env (with_prompt demo_png) demo_world)) = 1"
    using upload_deleted_exactly_once
        [of _ _ demo_env demo_world "with_prompt demo_png" demo_png] png given
    by (simp add: zero)
  have d: "files (snd (part000_endpoint demo_env_no_converter (with_prompt demo_pdf) demo_world))
       (stored_path demo_env_no_converter demo_pdf) = None
    \<and> deletions (stored_path demo_env_no_converter demo_pdf)
       (snd (part000_endpoint demo_env_no_converter (with_prompt demo_pdf) demo_world)) = 1
    \<and> unlink_calls (stored_path demo_env_no_converter demo_pdf)
       (snd (part000_endpoint demo_env_no_converter (with_prompt demo_pdf) demo_world)) = 1"
    using upload_deleted_exactly_once
        [of _ _ demo_env_no_converter demo_world "with_prompt demo_pdf" demo_pdf] pdf given
    by (simp add: zero)
  have e: "files (snd (part001_endpoint demo_env (with_prompt demo_png) demo_world))
       (stored_path demo_env demo_png) = None
    \<and> deletions (stored_path demo_env demo_png)
       (snd (part001_endpoint demo_env (with_prompt demo_png) demo_world)) = 1
    \<and> unlink_calls (stored_path demo_env demo_png)
       (snd (part001_endpoint demo_env (with_prompt demo_png) demo_world)) = 1"
    using upload_deleted_exactly_once
        [of _ _ demo_env demo_world _ _ "with_prompt demo_png" demo_png] png given
    by (simp add: zero)
  have f: "files (snd (part002_endpoint demo_env (with_prompt demo_pdf) demo_world))
       (stored_path demo_env demo_pdf) = None
    \<and> deletions (stored_path demo_env demo_pdf)
       (snd (part002_endpoint demo_env (with_prompt demo_pdf) demo_world)) = 1
    \<and> unlink_calls (stored_path demo_env demo_pdf)
       (snd (part002_endpoint demo_env (with_prompt demo_pdf) demo_world)) = 1"
    using upload_deleted_exactly_once
        [of _ _ demo_env demo_world _ _ _ _ "with_prompt demo_pdf" demo_pdf] pdf given
    by (simp add: zero)
  show ?thesis
    using a b c d e f by simp
qed

end
